theory Spec2Isabelle
  imports Complex_Main
begin

section \<open>Python values, exceptions and the outside world\<close>

text \<open>
  The handler \<^verbatim>\<open>src/handlers/stock-recommendation.py\<close> moves Python values between
  DynamoDB, the Bedrock runtime and \<^verbatim>\<open>json\<close>. A value is one of the shapes below. A
  \<^verbatim>\<open>float\<close> is carried by the text \<^verbatim>\<open>json.dumps\<close> prints for it and a
  \<^verbatim>\<open>Decimal\<close> by the text \<^verbatim>\<open>str\<close> prints for it: no arithmetic on either is
  modelled. A \<^verbatim>\<open>dict\<close> has string keys and keeps its insertion order, so it is an
  association list whose keys are distinct. Characters are code points below 256.
\<close>

datatype pyval =
    PNone
  | PBool bool
  | PInt int
  | PFloat string
  | PDecimal string
  | PStr string
  | PList "pyval list"
  | PDict "(string \<times> pyval) list"

type_synonym pydict = "(string \<times> pyval) list"

text \<open>
  An exception is a value. \<^verbatim>\<open>botocore.exceptions.ClientError\<close> carries
  \<^verbatim>\<open>e.response['Error']['Code']\<close> and the text of \<^verbatim>\<open>str(e)\<close>; every other exception
  carries its class name and the text of \<^verbatim>\<open>str(e)\<close>. All of them are subclasses of
  \<^verbatim>\<open>Exception\<close>.
\<close>

datatype error =
    ClientError string string
  | PyError string string

fun str_of_error :: "error \<Rightarrow> string" where
  "str_of_error (ClientError code txt) = txt"
| "str_of_error (PyError cls txt) = txt"

definition and_then :: "error + 'a \<Rightarrow> ('a \<Rightarrow> error + 'b) \<Rightarrow> error + 'b" where
  "and_then r f = (case r of Inl e \<Rightarrow> Inl e | Inr x \<Rightarrow> f x)"

text \<open>
  Every call that leaves the process is recorded, in order: the boto3 table operations with
  their arguments, \<^verbatim>\<open>invoke_model\<close> with the model id and the request body, and
  \<^verbatim>\<open>time.sleep\<close> with its argument in seconds.
\<close>

datatype call =
    TableScan string pydict
  | TableQuery string string
  | BatchGetItem string "string list"
  | UpdateItem string pydict string pydict
  | InvokeModel string string
  | Sleep rat

text \<open>
  The program state that outlives a call: the log of outside calls, and the field
  \<^verbatim>\<open>DynamoDBManager._risk_profile\<close>.
\<close>

record world =
  calls :: "call list"
  risk_profile_cache :: "pydict option"

record scan_response =
  Items :: "pydict list option"
  LastEvaluatedKey :: "pydict option"

text \<open>
  The outside world answers each call from the history of the calls made before it, so an
  answer may change from one call to the next (a throttled service that recovers, a store
  that is written between two reads). The library functions the handler relies on without
  defining them (\<^verbatim>\<open>json.loads\<close>, \<^verbatim>\<open>json.dumps(..., indent=2)\<close>, \<^verbatim>\<open>Decimal(...)\<close>,
  \<^verbatim>\<open>float(...)\<close>, \<^verbatim>\<open>str(...)\<close>, \<^verbatim>\<open>str.isdigit\<close>) are parameters as well; they are pure.
\<close>

record env =
  scan :: "call list \<Rightarrow> string \<Rightarrow> pydict \<Rightarrow> error + scan_response"
  query :: "call list \<Rightarrow> string \<Rightarrow> string \<Rightarrow> error + pydict list option"
  batch_get_item :: "call list \<Rightarrow> string \<Rightarrow> string list \<Rightarrow> error + pydict list option"
  update_item :: "call list \<Rightarrow> string \<Rightarrow> pydict \<Rightarrow> string \<Rightarrow> pydict \<Rightarrow> error option"
  invoke_model :: "call list \<Rightarrow> string \<Rightarrow> string \<Rightarrow> error + string"
  now_isoformat :: "call list \<Rightarrow> string"
  json_loads :: "string \<Rightarrow> error + pyval"
  json_dumps_indent2 :: "pyval \<Rightarrow> error + string"
  Decimal :: "string \<Rightarrow> error + pyval"
  float_of_Decimal :: "string \<Rightarrow> error + string"
  str :: "pyval \<Rightarrow> string"
  isdigit :: "string \<Rightarrow> bool"
  recursion_limit :: nat

text \<open>
  \<^verbatim>\<open>CONFIG\<close>. The table names are literals of the source; the Bedrock settings are read
  from the process environment; the two prompt templates are given split at their
  placeholders.
\<close>

record config =
  model_id :: string
  max_tokens :: int
  temperature :: string
  top_p :: string
  stock_analysis :: "string list"
  portfolio_bias_prompt :: "string list"

definition stock_ids_table :: string where "stock_ids_table = ''portfolio''"
definition risk_profile_table :: string where "risk_profile_table = ''portfolioprofile''"
definition fundamentals_table :: string where "fundamentals_table = ''portfolio_stock_fundamentals''"
definition technicals_table :: string where "technicals_table = ''portfolio_stock_trend''"
definition earnings_table :: string where "earnings_table = ''portfolio_earnings''"
definition recommendations_table :: string where "recommendations_table = ''portfolio_recommendation''"
definition portfolio_bias :: string where "portfolio_bias = ''portfolio_bias''"
definition api_delay :: rat where "api_delay = 1 / 10"

text \<open>\<^verbatim>\<open>AWSServiceBase.__init__\<close> and \<^verbatim>\<open>BedrockManager.__init__\<close>.\<close>

definition MAX_RETRIES :: nat where "MAX_RETRIES = 4"
definition BASE_DELAY :: rat where "BASE_DELAY = 3 / 4"
definition MAX_TOKENS :: int where "MAX_TOKENS = 2000"
definition BATCH_SIZE :: nat where "BATCH_SIZE = 100"

subsection \<open>Dictionaries, subscripts and truth values\<close>

fun dict_get :: "pydict \<Rightarrow> string \<Rightarrow> pyval option" where
  "dict_get [] k = None"
| "dict_get ((k', v) # d) k = (if k' = k then Some v else dict_get d k)"

text \<open>\<^verbatim>\<open>d[k] = v\<close>: an existing key keeps its place, a new key goes last.\<close>

fun dict_set :: "pydict \<Rightarrow> string \<Rightarrow> pyval \<Rightarrow> pydict" where
  "dict_set [] k v = [(k, v)]"
| "dict_set ((k', v') # d) k v = (if k' = k then (k, v) # d else (k', v') # dict_set d k v)"

text \<open>\<^verbatim>\<open>obj[k]\<close> for a string \<^verbatim>\<open>k\<close>, and \<^verbatim>\<open>obj[0]\<close>.\<close>

fun subscript :: "pyval \<Rightarrow> string \<Rightarrow> error + pyval" where
  "subscript (PDict d) k =
     (case dict_get d k of None \<Rightarrow> Inl (PyError ''KeyError'' k) | Some v \<Rightarrow> Inr v)"
| "subscript v k = Inl (PyError ''TypeError'' ''indices must be integers or not subscriptable'')"

fun subscript0 :: "pyval \<Rightarrow> error + pyval" where
  "subscript0 (PList []) = Inl (PyError ''IndexError'' ''list index out of range'')"
| "subscript0 (PList (x # xs)) = Inr x"
| "subscript0 (PStr []) = Inl (PyError ''IndexError'' ''string index out of range'')"
| "subscript0 (PStr (c # cs)) = Inr (PStr [c])"
| "subscript0 (PDict d) = Inl (PyError ''KeyError'' ''0'')"
| "subscript0 v = Inl (PyError ''TypeError'' ''object is not subscriptable'')"

text \<open>\<^verbatim>\<open>sub in s\<close> on strings.\<close>

fun starts_with :: "string \<Rightarrow> string \<Rightarrow> bool" where
  "starts_with [] s = True"
| "starts_with (c # cs) [] = False"
| "starts_with (c # cs) (d # ds) = (c = d \<and> starts_with cs ds)"

fun str_contains :: "string \<Rightarrow> string \<Rightarrow> bool" where
  "str_contains sub [] = (sub = [])"
| "str_contains sub (c # cs) = (starts_with sub (c # cs) \<or> str_contains sub cs)"

subsection \<open>\<^verbatim>\<open>json.dumps\<close>\<close>

definition hex_digit :: "nat \<Rightarrow> char" where
  "hex_digit n = ''0123456789abcdef'' ! (n mod 16)"

text \<open>
  \<^verbatim>\<open>json.encoder.py_encode_basestring_ascii\<close>: the quote, the backslash and every
  character outside \<^verbatim>\<open>' '..'~'\<close> are escaped, the listed control characters by their short
  form and the others as \<^verbatim>\<open>\uXXXX\<close>.
\<close>

definition escape_char :: "char \<Rightarrow> string" where
  "escape_char c =
     (if c = CHR 0x22 then [CHR 0x5C, CHR 0x22]
      else if c = CHR 0x5C then [CHR 0x5C, CHR 0x5C]
      else if c = CHR 0x08 then [CHR 0x5C, CHR ''b'']
      else if c = CHR 0x0C then [CHR 0x5C, CHR ''f'']
      else if c = CHR 0x0A then [CHR 0x5C, CHR ''n'']
      else if c = CHR 0x0D then [CHR 0x5C, CHR ''r'']
      else if c = CHR 0x09 then [CHR 0x5C, CHR ''t'']
      else if 32 \<le> (of_char c :: nat) \<and> (of_char c :: nat) \<le> 126 then [c]
      else [CHR 0x5C, CHR ''u'', CHR ''0'', CHR ''0'',
            hex_digit ((of_char c :: nat) div 16), hex_digit (of_char c :: nat)])"

definition encode_str :: "string \<Rightarrow> string" where
  "encode_str s = [CHR 0x22] @ concat (map escape_char s) @ [CHR 0x22]"

fun nat_digits :: "nat \<Rightarrow> string" where
  "nat_digits n =
     (if n < 10 then [''0123456789'' ! n] else nat_digits (n div 10) @ [''0123456789'' ! (n mod 10)])"

declare nat_digits.simps [simp del]

definition int_repr :: "int \<Rightarrow> string" where
  "int_repr i = (if i < 0 then CHR ''-'' # nat_digits (nat (- i)) else nat_digits (nat i))"

text \<open>\<^verbatim>\<open>', '.join(parts)\<close>.\<close>

fun join_comma :: "string list \<Rightarrow> string" where
  "join_comma [] = []"
| "join_comma [p] = p"
| "join_comma (p # q # ps) = p @ '', '' @ join_comma (q # ps)"

text \<open>
  \<^verbatim>\<open>json.dumps(obj, default=str)\<close> with the default separators: a \<^verbatim>\<open>Decimal\<close>, the one
  value here that \<^verbatim>\<open>json\<close> cannot serialize, goes through \<^verbatim>\<open>str\<close> and is written as a
  string. \<^verbatim>\<open>json.dumps(obj)\<close> writes the same text when no \<^verbatim>\<open>Decimal\<close> occurs in
  \<^verbatim>\<open>obj\<close> and raises \<^verbatim>\<open>TypeError\<close> otherwise.
\<close>

fun encode :: "pyval \<Rightarrow> string" where
  "encode PNone = ''null''"
| "encode (PBool b) = (if b then ''true'' else ''false'')"
| "encode (PInt i) = int_repr i"
| "encode (PFloat r) = r"
| "encode (PDecimal s) = encode_str s"
| "encode (PStr s) = encode_str s"
| "encode (PList xs) = ''['' @ join_comma (map encode xs) @ '']''"
| "encode (PDict d) =
     ''{'' @ join_comma (map (\<lambda>kv. encode_str (fst kv) @ '': '' @ encode (snd kv)) d) @ ''}''"



definition json_dumps_default_str :: "pyval \<Rightarrow> string" where
  "json_dumps_default_str v = encode v"

section \<open>InferenceClient: \<^verbatim>\<open>BedrockManager\<close>\<close>

subsection \<open>The retry wrapper of \<^verbatim>\<open>AWSServiceBase\<close>\<close>

definition sleep :: "rat \<Rightarrow> world \<Rightarrow> world" where
  "sleep t w = w\<lparr>calls := calls w @ [Sleep t]\<rparr>"

text \<open>
  \<^verbatim>\<open>AWSServiceBase.retry_with_backoff\<close>: the \<^verbatim>\<open>while retry_count < self.MAX_RETRIES\<close> loop
  of \<^verbatim>\<open>wrapper\<close>, entered with \<^verbatim>\<open>retry_count = 0\<close>. The wrapped function is any state
  transformer that returns or raises.
\<close>

function retry_loop ::
  "string list \<Rightarrow> (world \<Rightarrow> (error + 'a) \<times> world) \<Rightarrow> nat \<Rightarrow> world \<Rightarrow> (error + 'a) \<times> world" where
  "retry_loop retryable_errors func retry_count w =
     (if \<not> retry_count < MAX_RETRIES
      then (Inl (PyError ''Exception'' ''Max retries (4) exceeded''), w)
      else
        (let (r, w1) = func w in
         case r of
           Inr v \<Rightarrow> (Inr v, w1)
         | Inl (PyError cls txt) \<Rightarrow> (Inl (PyError cls txt), w1)
         | Inl (ClientError error_code txt) \<Rightarrow>
             if error_code \<in> set retryable_errors \<and> retry_count < MAX_RETRIES
             then retry_loop retryable_errors func (retry_count + 1)
                    (sleep (BASE_DELAY * 2 ^ (retry_count + 1)) w1)
             else (Inl (ClientError error_code txt), w1)))"
  by pat_completeness auto
termination
  by (relation "measure (\<lambda>(re, f, rc, w). MAX_RETRIES - rc)") auto

declare retry_loop.simps [simp del]

definition retry_with_backoff ::
  "string list option \<Rightarrow> (world \<Rightarrow> (error + 'a) \<times> world) \<Rightarrow> world \<Rightarrow> (error + 'a) \<times> world" where
  "retry_with_backoff retryable_errors func w =
     retry_loop
       (case retryable_errors of
          None \<Rightarrow> [''ProvisionedThroughputExceededException'', ''ThrottlingException'']
        | Some l \<Rightarrow> l)
       func 0 w"

subsection \<open>\<^verbatim>\<open>BedrockManager.chunk_data\<close>\<close>



subsection \<open>\<^verbatim>\<open>BedrockManager.get_inference\<close>\<close>

definition retryable_bedrock_errors :: "string list" where
  "retryable_bedrock_errors =
     [''ThrottlingException'', ''ModelTimeoutException'', ''ServiceQuotaExceededException'']"

text \<open>The dictionary that \<^verbatim>\<open>get_inference\<close> serializes into the request body.\<close>

definition request_body :: "config \<Rightarrow> string \<Rightarrow> pyval" where
  "request_body cfg prompt =
     PDict
       [(''inferenceConfig'',
           PDict [(''max_new_tokens'', PInt (min (max_tokens cfg) MAX_TOKENS)),
                  (''temperature'', PFloat (temperature cfg)),
                  (''top_p'', PFloat (top_p cfg))]),
        (''messages'',
           PList [PDict [(''role'', PStr ''user''),
                         (''content'', PList [PDict [(''text'', PStr prompt)]])]])]"

text \<open>
  \<^verbatim>\<open>int(len(prompt) * 0.7)\<close>. The product is a double: the literal \<^verbatim>\<open>0.7\<close> is
  \<open>6305039478318694 / 2 ^ 53\<close>, the exact product is rounded to 53 significant bits (to
  nearest, ties to even) and \<^verbatim>\<open>int\<close> drops the fraction. The result differs from
  \<open>7 * n div 10\<close> at some lengths (at 90 it is 62). Lengths are below \<open>2 ^ 53\<close>.
\<close>

fun bit_length :: "nat \<Rightarrow> nat" where
  "bit_length n = (if n = 0 then 0 else Suc (bit_length (n div 2)))"

declare bit_length.simps [simp del]

definition truncated_length :: "nat \<Rightarrow> nat" where
  "truncated_length n =
     (let p = n * 6305039478318694;
          b = bit_length p;
          q = (if b \<le> 53 then p
               else (let s = b - 53;
                         q0 = p div 2 ^ s;
                         r = p mod 2 ^ s;
                         up = (2 * r > 2 ^ s \<or> (2 * r = 2 ^ s \<and> odd q0))
                     in (q0 + (if up then 1 else 0)) * 2 ^ s))
      in q div 2 ^ 53)"

text \<open>
  \<^verbatim>\<open>response_body['output']['message']['content'][0]['text']\<close> and the final
  \<^verbatim>\<open>json.loads\<close>, which takes a string.
\<close>

definition loads_value :: "env \<Rightarrow> pyval \<Rightarrow> error + pyval" where
  "loads_value env v =
     (case v of
        PStr s \<Rightarrow> json_loads env s
      | _ \<Rightarrow> Inl (PyError ''TypeError'' ''the JSON object must be str, bytes or bytearray''))"

definition parse_reply :: "env \<Rightarrow> string \<Rightarrow> error + pyval" where
  "parse_reply env raw =
     and_then (json_loads env raw) (\<lambda>response_body.
     and_then (subscript response_body ''output'') (\<lambda>out.
     and_then (subscript out ''message'') (\<lambda>msg.
     and_then (subscript msg ''content'') (\<lambda>content.
     and_then (subscript0 content) (\<lambda>first.
     and_then (subscript first ''text'') (loads_value env))))))"

text \<open>The body of the \<^verbatim>\<open>try\<close>: one request to the oracle and the parse of its reply.\<close>

definition invoke_attempt :: "env \<Rightarrow> config \<Rightarrow> string \<Rightarrow> world \<Rightarrow> (error + pyval) \<times> world" where
  "invoke_attempt env cfg prompt w =
     (let body = encode (request_body cfg prompt)
      in (and_then (invoke_model env (calls w) (model_id cfg) body) (parse_reply env),
          w\<lparr>calls := calls w @ [InvokeModel (model_id cfg) body]\<rparr>))"

text \<open>
  \<^verbatim>\<open>get_inference\<close> at a given \<^verbatim>\<open>retry_count\<close> of its \<^verbatim>\<open>while\<close> loop. On a
  token-limit error the function calls itself from inside the handler, with the shortened
  prompt and a fresh \<^verbatim>\<open>retry_count\<close>. CPython bounds the depth of nested calls; this
  self-call is the only unbounded recursion of the handler, so \<open>depth\<close> is the number of
  nested self-calls the interpreter still allows, and a self-call beyond it raises
  \<^verbatim>\<open>RecursionError\<close>, which no handler on the way out catches.
\<close>

function get_inference_at ::
  "env \<Rightarrow> config \<Rightarrow> nat \<Rightarrow> string \<Rightarrow> nat \<Rightarrow> world \<Rightarrow> (error + pyval) \<times> world" where
  "get_inference_at env cfg depth prompt retry_count w =
     (if \<not> retry_count < MAX_RETRIES
      then (Inl (PyError ''Exception'' ''Max retries (4) exceeded''), w)
      else
        (let (r, w1) = invoke_attempt env cfg prompt w in
         case r of
           Inr v \<Rightarrow> (Inr v, w1)
         | Inl (PyError cls txt) \<Rightarrow> (Inl (PyError cls txt), w1)
         | Inl (ClientError error_code txt) \<Rightarrow>
             if error_code = ''ValidationException'' \<and> str_contains ''token limit exceeded'' txt
             then (case depth of
                     0 \<Rightarrow> (Inl (PyError ''RecursionError'' ''maximum recursion depth exceeded''), w1)
                   | Suc d \<Rightarrow>
                       get_inference_at env cfg d
                         (take (truncated_length (length prompt)) prompt) 0 w1)
             else if error_code \<in> set retryable_bedrock_errors \<and> retry_count < MAX_RETRIES
             then get_inference_at env cfg depth prompt (retry_count + 1)
                    (sleep (BASE_DELAY * 2 ^ (retry_count + 1)) w1)
             else (Inl (ClientError error_code txt), w1)))"
  by pat_completeness auto
termination
  by (relation "inv_image (less_than <*lex*> less_than)
                  (\<lambda>(env, cfg, depth, prompt, rc, w). (depth, MAX_RETRIES - rc))") auto

declare get_inference_at.simps [simp del]

definition get_inference :: "env \<Rightarrow> config \<Rightarrow> string \<Rightarrow> world \<Rightarrow> (error + pyval) \<times> world" where
  "get_inference env cfg prompt w = get_inference_at env cfg (recursion_limit env) prompt 0 w"

section \<open>KeyValueStore: \<^verbatim>\<open>DataValidationMixin\<close> and \<^verbatim>\<open>DynamoDBManager\<close>\<close>

text \<open>\<^verbatim>\<open>field in data\<close> for a string \<^verbatim>\<open>field\<close>.\<close>

fun py_in :: "string \<Rightarrow> pyval \<Rightarrow> error + bool" where
  "py_in field (PDict d) = Inr (dict_get d field \<noteq> None)"
| "py_in field (PList xs) = Inr (PStr field \<in> set xs)"
| "py_in field (PStr s) = Inr (str_contains field s)"
| "py_in field v = Inl (PyError ''TypeError'' ''argument is not iterable'')"

text \<open>
  \<^verbatim>\<open>all(field in data and data[field] is not None for field in required_fields)\<close>:
  the fields are tried in order and the first failing one ends the scan.
\<close>

fun validate_required_fields :: "pyval \<Rightarrow> string list \<Rightarrow> error + bool" where
  "validate_required_fields data [] = Inr True"
| "validate_required_fields data (field # required_fields) =
     (case py_in field data of
        Inl e \<Rightarrow> Inl e
      | Inr present \<Rightarrow>
          if \<not> present then Inr False
          else (case subscript data field of
                  Inl e \<Rightarrow> Inl e
                | Inr v \<Rightarrow>
                    if v = PNone then Inr False
                    else validate_required_fields data required_fields))"

text \<open>
  \<^verbatim>\<open>sanitize_data\<close>: the comprehension drops \<^verbatim>\<open>None\<close> and \<^verbatim>\<open>""\<close>; the loop then replaces
  each string that is all digits once its dots are removed by \<^verbatim>\<open>Decimal(value)\<close>, which
  raises on a text such as \<^verbatim>\<open>1.2.3\<close>.
\<close>

fun to_decimals :: "env \<Rightarrow> pydict \<Rightarrow> error + pydict" where
  "to_decimals env [] = Inr []"
| "to_decimals env ((key, val) # rest) =
     and_then
       (case val of
          PStr s \<Rightarrow>
            if isdigit env (filter (\<lambda>c. c \<noteq> CHR ''.'') s) then Decimal env s else Inr val
        | _ \<Rightarrow> Inr val)
       (\<lambda>val'. and_then (to_decimals env rest) (\<lambda>rest'. Inr ((key, val') # rest')))"

definition sanitize_data :: "env \<Rightarrow> pydict \<Rightarrow> error + pydict" where
  "sanitize_data env data =
     to_decimals env (filter (\<lambda>kv. snd kv \<noteq> PNone \<and> snd kv \<noteq> PStr []) data)"

text \<open>
  \<^verbatim>\<open>StockAnalysisOrchestrator.convert_decimals\<close>: each level has its own
  \<^verbatim>\<open>try\<close>, so a \<^verbatim>\<open>float(obj)\<close> that raises leaves \<^verbatim>\<open>None\<close> in that place.
\<close>

fun convert_decimals :: "env \<Rightarrow> pyval \<Rightarrow> pyval" where
  "convert_decimals env (PDict d) = PDict (map (\<lambda>kv. (fst kv, convert_decimals env (snd kv))) d)"
| "convert_decimals env (PList xs) = PList (map (convert_decimals env) xs)"
| "convert_decimals env (PDecimal s) =
     (case float_of_Decimal env s of Inl e \<Rightarrow> PNone | Inr r \<Rightarrow> PFloat r)"
| "convert_decimals env v = v"

text \<open>The truth value of an \<^verbatim>\<open>Optional[Dict]\<close>: \<^verbatim>\<open>None\<close> and \<^verbatim>\<open>{}\<close> are false.\<close>

definition dict_truthy :: "pydict option \<Rightarrow> bool" where
  "dict_truthy d = (case d of None \<Rightarrow> False | Some kvs \<Rightarrow> kvs \<noteq> [])"

text \<open>An \<^verbatim>\<open>Optional[Dict]\<close> as a Python value.\<close>

definition option_dict :: "pydict option \<Rightarrow> pyval" where
  "option_dict d = (case d of None \<Rightarrow> PNone | Some kvs \<Rightarrow> PDict kvs)"

text \<open>\<^verbatim>\<open>response.get('Items', [])\<close>.\<close>

definition items_or_empty :: "pydict list option \<Rightarrow> pydict list" where
  "items_or_empty r = (case r of None \<Rightarrow> [] | Some items \<Rightarrow> items)"

text \<open>\<^verbatim>\<open>_fetch_risk_profile\<close> and the caching property \<^verbatim>\<open>risk_profile\<close>.\<close>

definition fetch_risk_profile :: "env \<Rightarrow> world \<Rightarrow> (error + pydict option) \<times> world" where
  "fetch_risk_profile env w =
     (let params = [(''Limit'', PInt 1), (''ConsistentRead'', PBool True)];
          w1 = w\<lparr>calls := calls w @ [TableScan risk_profile_table params]\<rparr>
      in case scan env (calls w) risk_profile_table params of
           Inl e \<Rightarrow> (Inl e, w1)
         | Inr response \<Rightarrow>
             (case items_or_empty (Items response) of
                [] \<Rightarrow> (Inr None, w1)
              | item # _ \<Rightarrow> (Inr (Some item), w1)))"

definition risk_profile :: "env \<Rightarrow> world \<Rightarrow> (error + pydict option) \<times> world" where
  "risk_profile env w =
     (case risk_profile_cache w of
        Some p \<Rightarrow> (Inr (Some p), w)
      | None \<Rightarrow>
          (let (r, w1) = fetch_risk_profile env w in
           case r of
             Inl e \<Rightarrow> (Inl e, w1)
           | Inr p \<Rightarrow> (Inr p, w1\<lparr>risk_profile_cache := p\<rparr>)))"

text \<open>
  \<^verbatim>\<open>item['stockId']\<close>. The identifier is the string partition key of the tables
  (\<^verbatim>\<open>List[str]\<close>, \<^verbatim>\<open>stock_id: str\<close> in the source); an item whose \<^verbatim>\<open>stockId\<close> is not a
  string is outside the model and ends the operation.
\<close>

definition stock_id_of :: "pydict \<Rightarrow> error + string" where
  "stock_id_of item =
     (case dict_get item ''stockId'' of
        None \<Rightarrow> Inl (PyError ''KeyError'' ''stockId'')
      | Some (PStr s) \<Rightarrow> Inr s
      | Some _ \<Rightarrow> Inl (PyError ''TypeError'' ''stockId is not a string''))"

fun stock_ids_of :: "pydict list \<Rightarrow> error + string list" where
  "stock_ids_of [] = Inr []"
| "stock_ids_of (item # items) =
     and_then (stock_id_of item) (\<lambda>i. and_then (stock_ids_of items) (\<lambda>is. Inr (i # is)))"

text \<open>
  \<^verbatim>\<open>get_stock_ids\<close>: the \<^verbatim>\<open>while True\<close> loop, which ends only when a response carries
  no cursor; a run of the loop that never ends is the value \<open>None\<close>. The order of
  \<^verbatim>\<open>list(set(stock_ids))\<close> is that of a hash table; the model keeps one copy of each
  identifier, in the order of the pages, and nothing below depends on which order it is.
\<close>

definition scan_params :: "pydict option \<Rightarrow> pydict" where
  "scan_params last_evaluated_key =
     [(''ProjectionExpression'', PStr ''stockId''), (''ConsistentRead'', PBool True)] @
     (if dict_truthy last_evaluated_key
      then [(''ExclusiveStartKey'', option_dict last_evaluated_key)] else [])"

partial_function (option) get_stock_ids_loop ::
  "env \<Rightarrow> string \<Rightarrow> string list \<Rightarrow> pydict option \<Rightarrow> world
     \<Rightarrow> ((error + string list) \<times> world) option" where
  "get_stock_ids_loop env table_name stock_ids last_evaluated_key w =
     (let w1 = w\<lparr>calls := calls w @ [TableScan table_name (scan_params last_evaluated_key)]\<rparr>
      in case scan env (calls w) table_name (scan_params last_evaluated_key) of
           Inl e \<Rightarrow> Some (Inl e, w1)
         | Inr response \<Rightarrow>
             (case stock_ids_of (items_or_empty (Items response)) of
                Inl e \<Rightarrow> Some (Inl e, w1)
              | Inr new_ids \<Rightarrow>
                  if dict_truthy (LastEvaluatedKey response)
                  then get_stock_ids_loop env table_name (stock_ids @ new_ids)
                         (LastEvaluatedKey response) w1
                  else Some (Inr (remdups (stock_ids @ new_ids)), w1)))"

definition get_stock_ids ::
  "env \<Rightarrow> string \<Rightarrow> world \<Rightarrow> ((error + string list) \<times> world) option" where
  "get_stock_ids env table_name w = get_stock_ids_loop env table_name [] None w"

definition get_stock_data ::
  "env \<Rightarrow> string \<Rightarrow> string \<Rightarrow> world \<Rightarrow> (error + pydict option) \<times> world" where
  "get_stock_data env table_name stock_id w =
     (let w1 = w\<lparr>calls := calls w @ [TableQuery table_name stock_id]\<rparr>
      in case query env (calls w) table_name stock_id of
           Inl e \<Rightarrow> (Inl e, w1)
         | Inr response_items \<Rightarrow>
             (case items_or_empty response_items of
                [] \<Rightarrow> (Inr None, w1)
              | item # _ \<Rightarrow>
                  (case sanitize_data env item of
                     Inl e \<Rightarrow> (Inl e, w1)
                   | Inr d \<Rightarrow> (Inr (Some d), w1))))"

text \<open>
  \<^verbatim>\<open>batch_get_stock_data\<close>: one \<^verbatim>\<open>batch_get_item\<close> per slice of \<^verbatim>\<open>BATCH_SIZE\<close>
  identifiers; the inner loop stores each returned item, sanitized, under its
  \<^verbatim>\<open>stockId\<close> (the right-hand side of the assignment is evaluated first).
\<close>

fun store_items :: "env \<Rightarrow> pydict list \<Rightarrow> pydict \<Rightarrow> error + pydict" where
  "store_items env [] results = Inr results"
| "store_items env (item # items) results =
     and_then (sanitize_data env item) (\<lambda>d.
     and_then (stock_id_of item) (\<lambda>i.
     store_items env items (dict_set results i (PDict d))))"

function batch_loop ::
  "env \<Rightarrow> string \<Rightarrow> string list \<Rightarrow> pydict \<Rightarrow> world \<Rightarrow> (error + pydict) \<times> world" where
  "batch_loop env table_name stock_ids results w =
     (if stock_ids = [] then (Inr results, w)
      else
        (let batch = take BATCH_SIZE stock_ids;
             w1 = w\<lparr>calls := calls w @ [BatchGetItem table_name batch]\<rparr>
         in case batch_get_item env (calls w) table_name batch of
              Inl e \<Rightarrow> (Inl e, w1)
            | Inr responses \<Rightarrow>
                (case store_items env (items_or_empty responses) results of
                   Inl e \<Rightarrow> (Inl e, w1)
                 | Inr results' \<Rightarrow>
                     batch_loop env table_name (drop BATCH_SIZE stock_ids) results' w1)))"
  by pat_completeness auto
termination
  by (relation "measure (\<lambda>(env, t, ids, r, w). length ids)") (auto simp: BATCH_SIZE_def)

declare batch_loop.simps [simp del]

definition batch_get_stock_data ::
  "env \<Rightarrow> string \<Rightarrow> string list \<Rightarrow> world \<Rightarrow> (error + pydict) \<times> world" where
  "batch_get_stock_data env table_name stock_ids w = batch_loop env table_name stock_ids [] w"

section \<open>Prompt templates\<close>

text \<open>\<^verbatim>\<open>template.format(...)\<close> on a template split at its placeholders.\<close>

fun fill_template :: "string list \<Rightarrow> string list \<Rightarrow> string" where
  "fill_template [] args = []"
| "fill_template (t # ts) [] = t @ concat ts"
| "fill_template (t # ts) (a # args) = t @ a @ fill_template ts args"

definition build_analysis_prompt :: "env \<Rightarrow> config \<Rightarrow> pyval \<Rightarrow> error + string" where
  "build_analysis_prompt env cfg stock_data =
     and_then (and_then (subscript stock_data ''fundamentals'') (json_dumps_indent2 env)) (\<lambda>f.
     and_then (and_then (subscript stock_data ''technicals'') (json_dumps_indent2 env)) (\<lambda>t.
     and_then (and_then (subscript stock_data ''earnings'') (json_dumps_indent2 env)) (\<lambda>e.
     and_then (and_then (subscript stock_data ''riskprofile'') (json_dumps_indent2 env)) (\<lambda>r.
     Inr (fill_template (stock_analysis cfg) [f, t, e, r])))))"

definition analyze_portfolio_bias_prompt :: "env \<Rightarrow> config \<Rightarrow> pyval \<Rightarrow> error + string" where
  "analyze_portfolio_bias_prompt env cfg portfolio_data =
     and_then (json_dumps_indent2 env portfolio_data) (\<lambda>p.
     Inr (fill_template (portfolio_bias_prompt cfg) [p]))"

section \<open>ResultStore: \<^verbatim>\<open>RecommendationManager\<close>\<close>

definition recommendation_update_expression :: string where
  "recommendation_update_expression =
     ''SET recommendation = :r, confidence_score = :c, reasoning = :s, #ts = :t''"

definition bias_update_expression :: string where
  "bias_update_expression =
     ''SET bias_score = :b, volatility_risk = :v, sector_concentration = :s, recommendation = :r, #ts = :t''"

text \<open>
  \<^verbatim>\<open>table.update_item(...)\<close>: the call is made, then it returns or raises.
\<close>

definition do_update_item ::
  "env \<Rightarrow> string \<Rightarrow> pydict \<Rightarrow> string \<Rightarrow> pydict \<Rightarrow> world \<Rightarrow> (error + bool) \<times> world" where
  "do_update_item env table_name key expr vals w =
     (let w1 = w\<lparr>calls := calls w @ [UpdateItem table_name key expr vals]\<rparr>
      in case update_item env (calls w) table_name key expr vals of
           Some e \<Rightarrow> (Inl e, w1)
         | None \<Rightarrow> (Inr True, w1))"

definition store_recommendation ::
  "env \<Rightarrow> string \<Rightarrow> string \<Rightarrow> pyval \<Rightarrow> world \<Rightarrow> (error + bool) \<times> world" where
  "store_recommendation env table_name stock_id recommendation w =
     (case validate_required_fields recommendation
             [''recommendation'', ''confidence_score'', ''reasoning''] of
        Inl e \<Rightarrow> (Inl e, w)
      | Inr valid \<Rightarrow>
          if \<not> valid then (Inl (PyError ''ValueError'' ''Invalid recommendation data''), w)
          else
            (case
               and_then (subscript recommendation ''recommendation'') (\<lambda>r.
               and_then (subscript recommendation ''confidence_score'') (\<lambda>c0.
               and_then (Decimal env (str env c0)) (\<lambda>c.
               and_then (subscript recommendation ''reasoning'') (\<lambda>s.
               Inr [('':r'', r), ('':c'', c), ('':s'', s),
                    ('':t'', PStr (now_isoformat env (calls w)))]))))
             of
               Inl e \<Rightarrow> (Inl e, w)
             | Inr vals \<Rightarrow>
                 do_update_item env table_name [(''stockId'', PStr stock_id)]
                   recommendation_update_expression vals w))"

definition store_bias_details ::
  "env \<Rightarrow> string \<Rightarrow> pyval \<Rightarrow> world \<Rightarrow> (error + bool) \<times> world" where
  "store_bias_details env table_name bias w =
     (case validate_required_fields bias
             [''bias_score'', ''volatility_risk'', ''sector_concentration'', ''recommendation''] of
        Inl e \<Rightarrow> (Inl e, w)
      | Inr valid \<Rightarrow>
          if \<not> valid then (Inl (PyError ''ValueError'' ''Invalid bias data''), w)
          else
            (let params = [(''Limit'', PInt 1), (''ConsistentRead'', PBool True)];
                 w1 = w\<lparr>calls := calls w @ [TableScan risk_profile_table params]\<rparr>
             in case scan env (calls w) risk_profile_table params of
                  Inl e \<Rightarrow> (Inl e, w1)
                | Inr response \<Rightarrow>
                    (case
                       and_then
                         (case items_or_empty (Items response) of
                            [] \<Rightarrow> Inr (PStr ''user-default'')
                          | item # _ \<Rightarrow> subscript (PDict item) ''userId'')
                         (\<lambda>user_id.
                       and_then (subscript bias ''bias_score'') (\<lambda>b.
                       and_then (subscript bias ''volatility_risk'') (\<lambda>v.
                       and_then (subscript bias ''sector_concentration'') (\<lambda>s.
                       and_then (subscript bias ''recommendation'') (\<lambda>r.
                       Inr ([(''userId'', user_id)],
                            [('':b'', b), ('':v'', v), ('':s'', s), ('':r'', r),
                             ('':t'', PStr (now_isoformat env (calls w1)))]))))))
                     of
                       Inl e \<Rightarrow> (Inl e, w1)
                     | Inr (key, vals) \<Rightarrow>
                         do_update_item env table_name key bias_update_expression vals w1)))"

section \<open>Orchestrator: \<^verbatim>\<open>StockAnalysisOrchestrator\<close> and \<^verbatim>\<open>lambda_handler\<close>\<close>

text \<open>
  \<^verbatim>\<open>_gather_stock_data\<close>: three reads, in this order, each of which may raise; then
  \<^verbatim>\<open>if not all([fundamentals, technicals, earnings]): return None\<close>; only then is the
  risk profile read.
\<close>

definition gather_stock_data :: "env \<Rightarrow> string \<Rightarrow> world \<Rightarrow> (error + pyval option) \<times> world" where
  "gather_stock_data env stock_id w =
     (let (r1, w1) = get_stock_data env fundamentals_table stock_id w in
      case r1 of
        Inl e \<Rightarrow> (Inl e, w1)
      | Inr fundamentals \<Rightarrow>
          (let (r2, w2) = get_stock_data env technicals_table stock_id w1 in
           case r2 of
             Inl e \<Rightarrow> (Inl e, w2)
           | Inr technicals \<Rightarrow>
               (let (r3, w3) = get_stock_data env earnings_table stock_id w2 in
                case r3 of
                  Inl e \<Rightarrow> (Inl e, w3)
                | Inr earnings \<Rightarrow>
                    if \<not> (dict_truthy fundamentals \<and> dict_truthy technicals \<and> dict_truthy earnings)
                    then (Inr None, w3)
                    else
                      (let (r4, w4) = risk_profile env w3 in
                       case r4 of
                         Inl e \<Rightarrow> (Inl e, w4)
                       | Inr riskprofile \<Rightarrow>
                           (Inr (Some (PDict
                              [(''fundamentals'', option_dict fundamentals),
                               (''technicals'', option_dict technicals),
                               (''earnings'', option_dict earnings),
                               (''riskprofile'', option_dict riskprofile)])), w4)))))"

text \<open>The three records \<^verbatim>\<open>process_stock\<close> returns.\<close>

definition missing_data_record :: "string \<Rightarrow> pyval" where
  "missing_data_record stock_id =
     PDict [(''stock_id'', PStr stock_id), (''success'', PBool False),
            (''error'', PStr ''Missing data'')]"

definition error_record :: "string \<Rightarrow> error \<Rightarrow> pyval" where
  "error_record stock_id e =
     PDict [(''stock_id'', PStr stock_id), (''success'', PBool False),
            (''error'', PStr (str_of_error e))]"

definition success_record :: "string \<Rightarrow> bool \<Rightarrow> pyval \<Rightarrow> pyval" where
  "success_record stock_id success recommendation =
     PDict [(''stock_id'', PStr stock_id), (''success'', PBool success),
            (''recommendation'', if success then recommendation else PNone)]"

text \<open>
  \<^verbatim>\<open>process_stock\<close>: every exception raised in the body of the \<^verbatim>\<open>try\<close> ends in the
  \<^verbatim>\<open>except Exception\<close> clause.
\<close>

definition process_stock :: "env \<Rightarrow> config \<Rightarrow> string \<Rightarrow> world \<Rightarrow> pyval \<times> world" where
  "process_stock env cfg stock_id w =
     (let (r1, w1) = gather_stock_data env stock_id w in
      case r1 of
        Inl e \<Rightarrow> (error_record stock_id e, w1)
      | Inr None \<Rightarrow> (missing_data_record stock_id, w1)
      | Inr (Some stock_data) \<Rightarrow>
          (case build_analysis_prompt env cfg (convert_decimals env stock_data) of
             Inl e \<Rightarrow> (error_record stock_id e, w1)
           | Inr prompt \<Rightarrow>
               (let (r2, w2) = get_inference env cfg prompt w1 in
                case r2 of
                  Inl e \<Rightarrow> (error_record stock_id e, w2)
                | Inr recommendation \<Rightarrow>
                    (let (r3, w3) =
                           store_recommendation env recommendations_table stock_id recommendation w2
                     in case r3 of
                          Inl e \<Rightarrow> (error_record stock_id e, w3)
                        | Inr success \<Rightarrow> (success_record stock_id success recommendation, w3)))))"

text \<open>
  \<^verbatim>\<open>process_portfolio\<close>: the bias analysis of the whole collection; its \<^verbatim>\<open>except\<close>
  clause turns every exception into a record.
\<close>

definition portfolio_error_record :: "error \<Rightarrow> pyval" where
  "portfolio_error_record e = PDict [(''success'', PBool False), (''error'', PStr (str_of_error e))]"

definition process_portfolio :: "env \<Rightarrow> config \<Rightarrow> string list \<Rightarrow> world \<Rightarrow> pyval \<times> world" where
  "process_portfolio env cfg stock_ids w =
     (let (r1, w1) = batch_get_stock_data env fundamentals_table stock_ids w in
      case r1 of
        Inl e \<Rightarrow> (portfolio_error_record e, w1)
      | Inr fundamentals \<Rightarrow>
          (let (r2, w2) = batch_get_stock_data env technicals_table stock_ids w1 in
           case r2 of
             Inl e \<Rightarrow> (portfolio_error_record e, w2)
           | Inr technicals \<Rightarrow>
               (case analyze_portfolio_bias_prompt env cfg
                       (convert_decimals env
                          (PDict [(''fundamentals'', PDict fundamentals),
                                  (''technicals'', PDict technicals)])) of
                  Inl e \<Rightarrow> (portfolio_error_record e, w2)
                | Inr prompt \<Rightarrow>
                    (let (r3, w3) = get_inference env cfg prompt w2 in
                     case r3 of
                       Inl e \<Rightarrow> (portfolio_error_record e, w3)
                     | Inr bias_analysis \<Rightarrow>
                         (let (r4, w4) = store_bias_details env portfolio_bias bias_analysis w3 in
                          case r4 of
                            Inl e \<Rightarrow> (portfolio_error_record e, w4)
                          | Inr ok \<Rightarrow> (bias_analysis, w4))))))"

text \<open>
  The truth value of a Python value, as \<^verbatim>\<open>if result['success']\<close> takes it. A float is
  zero when it prints as \<^verbatim>\<open>0.0\<close> or \<^verbatim>\<open>-0.0\<close>; a \<^verbatim>\<open>Decimal\<close> is zero when its
  coefficient (the text before the exponent mark) has no nonzero digit and it is neither
  a NaN nor an infinity.
\<close>

fun truthy :: "pyval \<Rightarrow> bool" where
  "truthy PNone = False"
| "truthy (PBool b) = b"
| "truthy (PInt i) = (i \<noteq> 0)"
| "truthy (PFloat r) = (r \<noteq> ''0.0'' \<and> r \<noteq> ''-0.0'')"
| "truthy (PDecimal s) =
     (filter (\<lambda>c. c \<in> set ''123456789NI'') (takeWhile (\<lambda>c. c \<noteq> CHR ''E'') s) \<noteq> [])"
| "truthy (PStr s) = (s \<noteq> [])"
| "truthy (PList xs) = (xs \<noteq> [])"
| "truthy (PDict d) = (d \<noteq> [])"

text \<open>
  The \<^verbatim>\<open>for stock_id in stock_ids\<close> loop of \<^verbatim>\<open>lambda_handler\<close> with its three
  variables \<^verbatim>\<open>results\<close>, \<^verbatim>\<open>successful_count\<close> and \<^verbatim>\<open>error_count\<close>. The subscript
  \<^verbatim>\<open>result['success']\<close> is outside every \<^verbatim>\<open>try\<close> but the handler's own.
\<close>

fun process_all ::
  "env \<Rightarrow> config \<Rightarrow> string list \<Rightarrow> pyval list \<Rightarrow> nat \<Rightarrow> nat \<Rightarrow> world
     \<Rightarrow> (error + pyval list \<times> nat \<times> nat) \<times> world" where
  "process_all env cfg [] results successful_count error_count w =
     (Inr (results, successful_count, error_count), w)"
| "process_all env cfg (stock_id # stock_ids) results successful_count error_count w =
     (let (result, w1) = process_stock env cfg stock_id w in
      case subscript result ''success'' of
        Inl e \<Rightarrow> (Inl e, w1)
      | Inr success \<Rightarrow>
          if truthy success
          then process_all env cfg stock_ids (results @ [result])
                 (successful_count + 1) error_count (sleep api_delay w1)
          else process_all env cfg stock_ids (results @ [result])
                 successful_count (error_count + 1) (sleep api_delay w1))"

record response =
  statusCode :: int
  body :: string

definition complete_body :: "string list \<Rightarrow> nat \<Rightarrow> nat \<Rightarrow> pyval \<Rightarrow> pyval list \<Rightarrow> pyval" where
  "complete_body stock_ids successful_count error_count portfolio_analysis results =
     PDict [(''message'', PStr ''Processing complete''),
            (''total_processed'', PInt (int (length stock_ids))),
            (''successful'', PInt (int successful_count)),
            (''failed'', PInt (int error_count)),
            (''portfolio_analysis'', portfolio_analysis),
            (''results'', PList results)]"

definition failure_body :: "error \<Rightarrow> pyval" where
  "failure_body e =
     PDict [(''error'', PStr (str_of_error e)), (''message'', PStr ''Internal server error'')]"

text \<open>
  \<^verbatim>\<open>lambda_handler\<close>. The orchestrator is built anew on each invocation, so the cached
  risk profile starts empty. The result is \<open>None\<close> when the enumeration loop never ends.
\<close>

definition lambda_handler :: "env \<Rightarrow> config \<Rightarrow> world \<Rightarrow> (response \<times> world) option" where
  "lambda_handler env cfg w =
     (case get_stock_ids env stock_ids_table (w\<lparr>risk_profile_cache := None\<rparr>) of
        None \<Rightarrow> None
      | Some (Inl e, w1) \<Rightarrow>
          Some (\<lparr>statusCode = 500, body = encode (failure_body e)\<rparr>, w1)
      | Some (Inr stock_ids, w1) \<Rightarrow>
          (let (portfolio_analysis, w2) = process_portfolio env cfg stock_ids w1;
               (r, w3) = process_all env cfg stock_ids [] 0 0 w2
           in case r of
                Inl e \<Rightarrow> Some (\<lparr>statusCode = 500, body = encode (failure_body e)\<rparr>, w3)
              | Inr (results, successful_count, error_count) \<Rightarrow>
                  Some (\<lparr>statusCode = 200,
                         body = json_dumps_default_str
                                  (complete_body stock_ids successful_count error_count
                                     portfolio_analysis results)\<rparr>, w3)))"

section \<open>Vocabulary of the properties\<close>

text \<open>The calls made between two states of the world.\<close>

definition new_calls :: "world \<Rightarrow> world \<Rightarrow> call list" where
  "new_calls w w' = drop (length (calls w)) (calls w')"



text \<open>The prefixes of a prompt, and the calls an inference on that prompt may make.\<close>

definition truncations :: "string \<Rightarrow> string list" where
  "truncations prompt = map (\<lambda>k. take k prompt) [0..<Suc (length prompt)]"

fun inference_call :: "config \<Rightarrow> string \<Rightarrow> call \<Rightarrow> bool" where
  "inference_call cfg prompt (Sleep t) = True"
| "inference_call cfg prompt (InvokeModel m b) =
     (m = model_id cfg \<and> b \<in> set (map (\<lambda>p. encode (request_body cfg p)) (truncations prompt)))"
| "inference_call cfg prompt c = False"

definition max_new_tokens_of :: "pyval \<Rightarrow> error + pyval" where
  "max_new_tokens_of request =
     and_then (subscript request ''inferenceConfig'') (\<lambda>c. subscript c ''max_new_tokens'')"

section \<open>Test doubles\<close>

text \<open>
  A world in which every table is empty, every write succeeds and the oracle cannot be
  reached; the other doubles change one dependency of it.
\<close>

definition base_env :: env where
  "base_env =
     \<lparr>scan = (\<lambda>h t p. Inr \<lparr>Items = None, LastEvaluatedKey = None\<rparr>),
      query = (\<lambda>h t k. Inr None),
      batch_get_item = (\<lambda>h t ks. Inr None),
      update_item = (\<lambda>h t k e v. None),
      invoke_model = (\<lambda>h m b. Inl (PyError ''EndpointConnectionError'' ''Could not connect'')),
      now_isoformat = (\<lambda>h. ''2026-01-01T00:00:00''),
      json_loads = (\<lambda>s. Inl (PyError ''JSONDecodeError'' ''Expecting value'')),
      json_dumps_indent2 = (\<lambda>v. Inr (encode v)),
      Decimal = (\<lambda>s. Inr (PDecimal s)),
      float_of_Decimal = (\<lambda>s. Inr s),
      str = encode,
      isdigit = (\<lambda>s. s \<noteq> [] \<and> list_all (\<lambda>c. c \<in> set ''0123456789'') s),
      recursion_limit = 1000\<rparr>"

definition base_config :: config where
  "base_config =
     \<lparr>model_id = ''amazon.nova-micro-v1:0'', max_tokens = 1000,
      temperature = ''0.0'', top_p = ''0.9'',
      stock_analysis = [''F: '', '' T: '', '' E: '', '' R: '', []],
      portfolio_bias_prompt = [''P: '', []]\<rparr>"

definition fresh :: world where
  "fresh = \<lparr>calls = [], risk_profile_cache = None\<rparr>"

definition throttling :: error where
  "throttling = ClientError ''ThrottlingException'' ''Rate exceeded''"

definition token_limit :: error where
  "token_limit = ClientError ''ValidationException'' ''Input token limit exceeded''"

definition throttled_env :: env where
  "throttled_env = base_env\<lparr>invoke_model := (\<lambda>h m b. Inl throttling)\<rparr>"

definition token_limit_env :: env where
  "token_limit_env = base_env\<lparr>invoke_model := (\<lambda>h m b. Inl token_limit)\<rparr>"

definition throttled_read :: "world \<Rightarrow> (error + pyval) \<times> world" where
  "throttled_read w =
     (Inl throttling, w\<lparr>calls := calls w @ [TableQuery ''portfolio'' ''AAPL'']\<rparr>)"

definition rich_config :: config where
  "rich_config = base_config\<lparr>max_tokens := 5000\<rparr>"

definition risk_scan_params :: pydict where
  "risk_scan_params = [(''Limit'', PInt 1), (''ConsistentRead'', PBool True)]"

text \<open>
  \<^verbatim>\<open>items[0]['userId'] if items else "user-default"\<close>, on the items of a scan response.
\<close>

definition owner_of :: "scan_response \<Rightarrow> error + pyval" where
  "owner_of response =
     (case items_or_empty (Items response) of
        [] \<Rightarrow> Inr (PStr ''user-default'')
      | item # _ \<Rightarrow> subscript (PDict item) ''userId'')"

definition reply_without_score :: pyval where
  "reply_without_score = PDict [(''recommendation'', PStr ''BUY''), (''reasoning'', PStr ''cheap'')]"

definition sample_bias :: pyval where
  "sample_bias =
     PDict [(''bias_score'', PInt 3), (''volatility_risk'', PStr ''low''),
            (''sector_concentration'', PStr ''tech''), (''recommendation'', PStr ''diversify'')]"

text \<open>A store that holds every entity's fundamentals and technicals and nobody's earnings.\<close>

definition no_earnings_env :: env where
  "no_earnings_env =
     base_env\<lparr>query := (\<lambda>h t k.
        if t = earnings_table then Inr None else Inr (Some [[(''stockId'', PStr k)]]))\<rparr>"

text \<open>
  A store that serves a collection as the pages \<open>rs\<close>: the scan without a cursor returns
  the first page, the scan with the cursor of a page returns the next page, whatever
  happened before; every page but the last carries a cursor, and the last carries none.
\<close>

definition cursor_before :: "scan_response list \<Rightarrow> nat \<Rightarrow> pydict option" where
  "cursor_before rs j = (if j = 0 then None else LastEvaluatedKey (rs ! (j - 1)))"

definition serves_pages :: "env \<Rightarrow> string \<Rightarrow> scan_response list \<Rightarrow> bool" where
  "serves_pages env table_name rs =
     (rs \<noteq> [] \<and>
      (\<forall>h j. j < length rs \<longrightarrow>
         scan env h table_name (scan_params (cursor_before rs j)) = Inr (rs ! j)) \<and>
      (\<forall>j. Suc j < length rs \<longrightarrow> dict_truthy (LastEvaluatedKey (rs ! j))) \<and>
      \<not> dict_truthy (LastEvaluatedKey (last rs)))"

definition page_ids :: "scan_response \<Rightarrow> error + string list" where
  "page_ids r = stock_ids_of (items_or_empty (Items r))"

definition first_page :: scan_response where
  "first_page =
     \<lparr>Items = Some [[(''stockId'', PStr ''AAPL'')], [(''stockId'', PStr ''MSFT'')]],
      LastEvaluatedKey = Some [(''stockId'', PStr ''MSFT'')]\<rparr>"

definition second_page :: scan_response where
  "second_page =
     \<lparr>Items = Some [[(''stockId'', PStr ''MSFT'')], [(''stockId'', PStr ''NVDA'')]],
      LastEvaluatedKey = None\<rparr>"

definition two_page_env :: env where
  "two_page_env =
     base_env\<lparr>scan := (\<lambda>h t p.
        if dict_get p ''ExclusiveStartKey'' = None then Inr first_page else Inr second_page)\<rparr>"

text \<open>
  The size \<^verbatim>\<open>chunk_data\<close> keeps track of: the lengths of the serialized values of a
  chunk, without its keys and without the punctuation of the dictionary.
\<close>

definition values_size :: "pydict \<Rightarrow> nat" where
  "values_size c = sum_list (map (\<lambda>kv. length (encode (snd kv))) c)"


text \<open>
  The outcome records of the per-entity step: a record for the entity \<open>sid\<close> is either a
  success with its recommendation or a failure with its reason.
\<close>

definition keys_of :: "pyval \<Rightarrow> string list" where
  "keys_of v = (case v of PDict d \<Rightarrow> map fst d | _ \<Rightarrow> [])"

definition succeeded :: "pyval \<Rightarrow> bool" where
  "succeeded r = (subscript r ''success'' = Inr (PBool True))"

definition is_outcome :: "string \<Rightarrow> pyval \<Rightarrow> bool" where
  "is_outcome sid r =
     (subscript r ''stock_id'' = Inr (PStr sid) \<and>
      (keys_of r = [''stock_id'', ''success'', ''recommendation''] \<and>
         subscript r ''success'' = Inr (PBool True) \<or>
       keys_of r = [''stock_id'', ''success'', ''error''] \<and>
         subscript r ''success'' = Inr (PBool False)))"

text \<open>
  The per-entity steps of a run one after the other, each followed by the pause between
  entities, with the records they return.
\<close>

fun outcomes :: "env \<Rightarrow> config \<Rightarrow> string list \<Rightarrow> world \<Rightarrow> pyval list \<times> world" where
  "outcomes env cfg [] w = ([], w)"
| "outcomes env cfg (sid # sids) w =
     (let (r, w1) = process_stock env cfg sid w;
          (rs, w2) = outcomes env cfg sids (sleep api_delay w1)
      in (r # rs, w2))"

text \<open>
  Dependencies whose answers do not change with time: an answer is a function of the
  request alone, not of the calls made before it.
\<close>

definition stationary :: "env \<Rightarrow> bool" where
  "stationary env =
     (\<forall>h h'. scan env h = scan env h' \<and> query env h = query env h' \<and>
             batch_get_item env h = batch_get_item env h' \<and>
             update_item env h = update_item env h' \<and>
             invoke_model env h = invoke_model env h' \<and>
             now_isoformat env h = now_isoformat env h')"

text \<open>The cached risk profile is empty or is what a read of the store returns.\<close>

definition cache_agrees :: "env \<Rightarrow> world \<Rightarrow> bool" where
  "cache_agrees env w =
     (case risk_profile_cache w of
        None \<Rightarrow> True
      | Some p \<Rightarrow>
          (case scan env [] risk_profile_table risk_scan_params of
             Inl e \<Rightarrow> False
           | Inr response \<Rightarrow>
               (case items_or_empty (Items response) of
                  [] \<Rightarrow> False
                | item # _ \<Rightarrow> p = item)))"

text \<open>The result of gathering, written without the worlds in between.\<close>

definition gathered :: "env \<Rightarrow> string \<Rightarrow> error + pyval option" where
  "gathered env sid =
     (case fst (get_stock_data env fundamentals_table sid fresh) of
        Inl e \<Rightarrow> Inl e
      | Inr fundamentals \<Rightarrow>
          (case fst (get_stock_data env technicals_table sid fresh) of
             Inl e \<Rightarrow> Inl e
           | Inr technicals \<Rightarrow>
               (case fst (get_stock_data env earnings_table sid fresh) of
                  Inl e \<Rightarrow> Inl e
                | Inr earnings \<Rightarrow>
                    if \<not> (dict_truthy fundamentals \<and> dict_truthy technicals \<and> dict_truthy earnings)
                    then Inr None
                    else
                      (case fst (risk_profile env fresh) of
                         Inl e \<Rightarrow> Inl e
                       | Inr riskprofile \<Rightarrow>
                           Inr (Some (PDict
                              [(''fundamentals'', option_dict fundamentals),
                               (''technicals'', option_dict technicals),
                               (''earnings'', option_dict earnings),
                               (''riskprofile'', option_dict riskprofile)]))))))"

text \<open>The record of the step, written without the worlds in between.\<close>

definition outcome :: "env \<Rightarrow> config \<Rightarrow> string \<Rightarrow> pyval" where
  "outcome env cfg sid =
     (case gathered env sid of
        Inl e \<Rightarrow> error_record sid e
      | Inr None \<Rightarrow> missing_data_record sid
      | Inr (Some stock_data) \<Rightarrow>
          (case build_analysis_prompt env cfg (convert_decimals env stock_data) of
             Inl e \<Rightarrow> error_record sid e
           | Inr prompt \<Rightarrow>
               (case fst (get_inference env cfg prompt fresh) of
                  Inl e \<Rightarrow> error_record sid e
                | Inr recommendation \<Rightarrow>
                    (case fst (store_recommendation env recommendations_table sid
                                 recommendation fresh) of
                       Inl e \<Rightarrow> error_record sid e
                     | Inr success \<Rightarrow> success_record sid success recommendation))))"

text \<open>
  A store with three entities whose sources are all present, and an oracle that refuses the
  request about one of them and answers the others with a verdict.
\<close>

definition verdict :: pyval where
  "verdict =
     PDict [(''recommendation'', PStr ''BUY''), (''confidence_score'', PInt 90),
            (''reasoning'', PStr ''sound'')]"


text \<open>A store with one entity, whose earnings are missing.\<close>

definition one_skipped_env :: env where
  "one_skipped_env =
     no_earnings_env
       \<lparr>scan := (\<lambda>h t p.
          if t = stock_ids_table
          then Inr \<lparr>Items = Some [[(''stockId'', PStr ''AAPL'')]], LastEvaluatedKey = None\<rparr>
          else Inr \<lparr>Items = None, LastEvaluatedKey = None\<rparr>)\<rparr>"




section \<open>Facts about the call log\<close>

lemma new_calls_append [simp]: "new_calls w (w'\<lparr>calls := calls w @ cs\<rparr>) = cs"
  by (simp add: new_calls_def)

lemma new_calls_eq: "calls w' = calls w @ cs \<Longrightarrow> new_calls w w' = cs"
  by (simp add: new_calls_def)

lemma truncations_self: "p \<in> set (truncations p)"
  unfolding truncations_def by (auto simp: image_iff intro!: bexI[of _ "length p"])

lemma truncations_take: "q \<in> set (truncations (take n p)) \<Longrightarrow> q \<in> set (truncations p)"
  unfolding truncations_def by (auto simp: image_iff)

lemma inference_call_take: "inference_call cfg (take n p) c \<Longrightarrow> inference_call cfg p c"
  by (cases c) (auto dest: truncations_take)

lemma invoke_attempt_world:
  "invoke_attempt env cfg prompt w = (r, w1) \<Longrightarrow>
     w1 = w\<lparr>calls := calls w @ [InvokeModel (model_id cfg) (encode (request_body cfg prompt))]\<rparr>"
  by (auto simp: invoke_attempt_def Let_def)

text \<open>
  An inference leaves the cached risk profile alone, and the calls it adds to the log are
  sleeps and requests for a prefix of its prompt.
\<close>

lemma get_inference_at_calls:
  "get_inference_at env cfg depth prompt rc w = (r, w') \<Longrightarrow>
     risk_profile_cache w' = risk_profile_cache w \<and>
     (\<exists>new. calls w' = calls w @ new \<and> (\<forall>c \<in> set new. inference_call cfg prompt c))"
proof (induction env cfg depth prompt rc w arbitrary: r w' rule: get_inference_at.induct)
  case (1 env cfg depth prompt retry_count w)
  show ?case
  proof (cases "retry_count < MAX_RETRIES")
    case False
    with "1.prems" show ?thesis by (simp add: get_inference_at.simps)
  next
    case True
    then have nn: "\<not> \<not> retry_count < MAX_RETRIES" by simp
    obtain r1 w1 where att: "invoke_attempt env cfg prompt w = (r1, w1)" by force
    from invoke_attempt_world[OF att]
    have w1: "w1 = w\<lparr>calls := calls w @ [InvokeModel (model_id cfg) (encode (request_body cfg prompt))]\<rparr>" .
    have one: "inference_call cfg prompt (InvokeModel (model_id cfg) (encode (request_body cfg prompt)))"
      using truncations_self by simp
    show ?thesis
    proof (cases r1)
      case (Inr v)
      with "1.prems" True att w1 one show ?thesis
        by (auto simp: get_inference_at.simps)
    next
      case (Inl e)
      show ?thesis
      proof (cases e)
        case (PyError cls msg)
        with "1.prems" True att w1 one Inl show ?thesis
          by (auto simp: get_inference_at.simps)
      next
        case (ClientError code msg)
        show ?thesis
        proof (cases "code = ''ValidationException'' \<and> str_contains ''token limit exceeded'' msg")
          case tl: True
          show ?thesis
          proof (cases depth)
            case 0
            with "1.prems" True att w1 one Inl ClientError tl show ?thesis
              by (auto simp: get_inference_at.simps)
          next
            case (Suc d)
            with "1.prems" True att Inl ClientError tl
            have rec: "get_inference_at env cfg d (take (truncated_length (length prompt)) prompt) 0 w1 = (r, w')"
              by (auto simp: get_inference_at.simps)
            from "1.IH"(1)[OF nn refl att[symmetric] Inl ClientError tl Suc rec]
            obtain new where n: "risk_profile_cache w' = risk_profile_cache w1"
              "calls w' = calls w1 @ new"
              "\<forall>c\<in>set new. inference_call cfg (take (truncated_length (length prompt)) prompt) c"
              by blast
            then show ?thesis using w1 one
              by (auto dest: inference_call_take)
          qed
        next
          case ntl: False
          show ?thesis
          proof (cases "code \<in> set retryable_bedrock_errors")
            case False
            with "1.prems" True att w1 one Inl ClientError ntl show ?thesis
              by (auto simp: get_inference_at.simps)
          next
            case rt: True
            with "1.prems" True att Inl ClientError ntl
            have rec: "get_inference_at env cfg depth prompt (retry_count + 1)
                    (sleep (BASE_DELAY * 2 ^ (retry_count + 1)) w1) = (r, w')"
              by (auto simp: get_inference_at.simps)
            have c: "code \<in> set retryable_bedrock_errors \<and> retry_count < MAX_RETRIES"
              using rt True by simp
            from "1.IH"(2)[OF nn refl att[symmetric] Inl ClientError ntl c rec]
            obtain new where n:
              "risk_profile_cache w' = risk_profile_cache (sleep (BASE_DELAY * 2 ^ (retry_count + 1)) w1)"
              "calls w' = calls (sleep (BASE_DELAY * 2 ^ (retry_count + 1)) w1) @ new"
              "\<forall>c\<in>set new. inference_call cfg prompt c"
              by blast
            then show ?thesis using w1 one
              by (auto simp: sleep_def)
          qed
        qed
      qed
    qed
  qed
qed

lemma get_inference_calls:
  "get_inference env cfg prompt w = (r, w') \<Longrightarrow>
     risk_profile_cache w' = risk_profile_cache w \<and>
     (\<exists>new. calls w' = calls w @ new \<and> (\<forall>c \<in> set new. inference_call cfg prompt c))"
  unfolding get_inference_def by (rule get_inference_at_calls)

text \<open>The first thing an inference does is to send the request for its prompt.\<close>

lemma get_inference_first_call:
  "get_inference env cfg prompt w = (r, w') \<Longrightarrow>
     \<exists>new. calls w' = calls w @ InvokeModel (model_id cfg) (encode (request_body cfg prompt)) # new"
proof -
  assume g: "get_inference env cfg prompt w = (r, w')"
  obtain r1 w1 where att: "invoke_attempt env cfg prompt w = (r1, w1)" by force
  from invoke_attempt_world[OF att]
  have w1: "calls w1 = calls w @ [InvokeModel (model_id cfg) (encode (request_body cfg prompt))]"
    by simp
  have grow: "\<exists>new. calls w' = calls w1 @ new"
    using g att
    unfolding get_inference_def
    by (subst (asm) get_inference_at.simps)
       (auto simp: MAX_RETRIES_def sleep_def split: sum.splits error.splits if_splits nat.splits
             dest!: get_inference_at_calls)
  then show ?thesis using w1 by auto
qed

section \<open>The cap on requested output tokens\<close>

lemma request_body_max_new_tokens:
  "max_new_tokens_of (request_body cfg p) = Inr (PInt (min (max_tokens cfg) MAX_TOKENS))"
  by (simp add: max_new_tokens_of_def request_body_def and_then_def)

text \<open>
  C10. Every inference sends at least one request, and every request body it sends is the
  serialization of a dictionary whose \<^verbatim>\<open>inferenceConfig.max_new_tokens\<close> is the smaller of
  the configured \<^verbatim>\<open>max_tokens\<close> and \<^verbatim>\<open>MAX_TOKENS\<close>, hence at most 2000, whatever the
  configured value, the prompt, the answers of the oracle and the number of retries and
  truncations.
\<close>

theorem max_new_tokens_capped:
  "(\<exists>b. InvokeModel (model_id cfg) b \<in> set (new_calls w (snd (get_inference env cfg prompt w)))) \<and>
   (\<forall>c \<in> set (new_calls w (snd (get_inference env cfg prompt w))). \<forall>m b.
      c = InvokeModel m b \<longrightarrow>
        (\<exists>p. b = encode (request_body cfg p) \<and>
             max_new_tokens_of (request_body cfg p) = Inr (PInt (min (max_tokens cfg) MAX_TOKENS)))) \<and>
   min (max_tokens cfg) MAX_TOKENS \<le> 2000"
proof -
  obtain r w' where g: "get_inference env cfg prompt w = (r, w')" by force
  from get_inference_first_call[OF g] obtain new1 where
    f: "calls w' = calls w @ InvokeModel (model_id cfg) (encode (request_body cfg prompt)) # new1"
    by blast
  from get_inference_calls[OF g] obtain new where
    n: "calls w' = calls w @ new" "\<forall>c \<in> set new. inference_call cfg prompt c" by blast
  have nc: "new_calls w w' = new" using n(1) by (rule new_calls_eq)
  have 1: "\<exists>b. InvokeModel (model_id cfg) b \<in> set (new_calls w w')"
    using f n(1) nc by auto
  have 2: "\<forall>c \<in> set new. \<forall>m b. c = InvokeModel m b \<longrightarrow>
        (\<exists>p. b = encode (request_body cfg p) \<and>
             max_new_tokens_of (request_body cfg p) = Inr (PInt (min (max_tokens cfg) MAX_TOKENS)))"
  proof (intro ballI allI impI)
    fix c m b assume c: "c \<in> set new" "c = InvokeModel m b"
    with n(2) have "inference_call cfg prompt (InvokeModel m b)" by blast
    then obtain p where "b = encode (request_body cfg p)" by auto
    then show "\<exists>p. b = encode (request_body cfg p) \<and>
             max_new_tokens_of (request_body cfg p) = Inr (PInt (min (max_tokens cfg) MAX_TOKENS))"
      using request_body_max_new_tokens by blast
  qed
  show ?thesis using 1 2 nc g by (simp add: MAX_TOKENS_def)
qed

text \<open>With \<^verbatim>\<open>BEDROCK_MAX_TOKENS=5000\<close> the one request of the run asks for 2000 tokens.\<close>

theorem max_new_tokens_capped_witness:
  "new_calls fresh (snd (get_inference base_env rich_config ''hello'' fresh)) =
     [InvokeModel ''amazon.nova-micro-v1:0'' (encode (request_body rich_config ''hello''))] \<and>
   (\<exists>p. encode (request_body rich_config ''hello'') = encode (request_body rich_config p) \<and>
        max_new_tokens_of (request_body rich_config p) = Inr (PInt 2000))"
proof -
  have run: "new_calls fresh (snd (get_inference base_env rich_config ''hello'' fresh)) =
     [InvokeModel ''amazon.nova-micro-v1:0'' (encode (request_body rich_config ''hello''))]"
    by (simp add: get_inference_def get_inference_at.simps MAX_RETRIES_def invoke_attempt_def
          base_env_def and_then_def fresh_def Let_def new_calls_def rich_config_def base_config_def)
  have m: "min (max_tokens rich_config) MAX_TOKENS = 2000"
    by (simp add: rich_config_def base_config_def MAX_TOKENS_def)
  from max_new_tokens_capped[of rich_config fresh base_env "''hello''"] run m
  show ?thesis by simp
qed

section \<open>Retry and backoff\<close>

text \<open>
  C4. An operation that is throttled on every call is tried four times, and each failure,
  the fourth included, is followed by a sleep of \<open>0.75 * 2 ^ k\<close> seconds (1.5, 3, 6, 12).
  The sleep of 12 seconds after the last attempt is followed by no attempt: the loop ends
  and \<^verbatim>\<open>Exception("Max retries (4) exceeded")\<close> is raised. The decorator and the loop
  inlined in \<^verbatim>\<open>get_inference\<close> behave alike.
\<close>

theorem exhaustion_sleeps_before_raising:
  "retry_with_backoff None throttled_read fresh =
     (Inl (PyError ''Exception'' ''Max retries (4) exceeded''),
      fresh\<lparr>calls := [TableQuery ''portfolio'' ''AAPL'', Sleep (3 / 2),
                       TableQuery ''portfolio'' ''AAPL'', Sleep 3,
                       TableQuery ''portfolio'' ''AAPL'', Sleep 6,
                       TableQuery ''portfolio'' ''AAPL'', Sleep 12]\<rparr>) \<and>
   get_inference throttled_env base_config ''hello'' fresh =
     (Inl (PyError ''Exception'' ''Max retries (4) exceeded''),
      fresh\<lparr>calls :=
        [InvokeModel (model_id base_config) (encode (request_body base_config ''hello'')), Sleep (3 / 2),
         InvokeModel (model_id base_config) (encode (request_body base_config ''hello'')), Sleep 3,
         InvokeModel (model_id base_config) (encode (request_body base_config ''hello'')), Sleep 6,
         InvokeModel (model_id base_config) (encode (request_body base_config ''hello'')), Sleep 12]\<rparr>)"
proof -
  have a: "retry_with_backoff None throttled_read fresh =
     (Inl (PyError ''Exception'' ''Max retries (4) exceeded''),
      fresh\<lparr>calls := [TableQuery ''portfolio'' ''AAPL'', Sleep (3 / 2),
                       TableQuery ''portfolio'' ''AAPL'', Sleep 3,
                       TableQuery ''portfolio'' ''AAPL'', Sleep 6,
                       TableQuery ''portfolio'' ''AAPL'', Sleep 12]\<rparr>)"
    by (simp add: retry_with_backoff_def retry_loop.simps MAX_RETRIES_def BASE_DELAY_def
          throttled_read_def throttling_def sleep_def fresh_def)
  have b: "get_inference throttled_env cfg prompt fresh =
     (Inl (PyError ''Exception'' ''Max retries (4) exceeded''),
      fresh\<lparr>calls :=
        [InvokeModel (model_id cfg) (encode (request_body cfg prompt)), Sleep (3 / 2),
         InvokeModel (model_id cfg) (encode (request_body cfg prompt)), Sleep 3,
         InvokeModel (model_id cfg) (encode (request_body cfg prompt)), Sleep 6,
         InvokeModel (model_id cfg) (encode (request_body cfg prompt)), Sleep 12]\<rparr>)"
    for cfg prompt
    by (simp add: get_inference_def get_inference_at.simps MAX_RETRIES_def BASE_DELAY_def
          invoke_attempt_def throttled_env_def base_env_def and_then_def
          retryable_bedrock_errors_def throttling_def sleep_def fresh_def Let_def)
  show ?thesis using a b by simp
qed
section \<open>Truncation on a token-limit error\<close>

lemma token_limit_attempt:
  "invoke_attempt (token_limit_env\<lparr>recursion_limit := d\<rparr>) cfg p w =
     (Inl token_limit,
      w\<lparr>calls := calls w @ [InvokeModel (model_id cfg) (encode (request_body cfg p))]\<rparr>)"
  by (simp add: invoke_attempt_def token_limit_env_def base_env_def and_then_def Let_def)

lemma token_limit_empty_prompt:
  "get_inference_at (token_limit_env\<lparr>recursion_limit := l\<rparr>) cfg d [] 0 w =
     (Inl (PyError ''RecursionError'' ''maximum recursion depth exceeded''),
      w\<lparr>calls := calls w @
           replicate (Suc d) (InvokeModel (model_id cfg) (encode (request_body cfg [])))\<rparr>)"
proof (induction d arbitrary: w)
  case 0
  show ?case
    by (subst get_inference_at.simps) (simp add: token_limit_attempt MAX_RETRIES_def token_limit_def)
next
  case (Suc d)
  show ?case
    by (subst get_inference_at.simps)
       (simp add: token_limit_attempt MAX_RETRIES_def token_limit_def Suc replicate_app_Cons_same)
qed

lemma bit_length_0: "bit_length 0 = 0"
  by (subst bit_length.simps) simp

lemma bit_length_One: "bit_length (Suc 0) = Suc 0"
  by (subst bit_length.simps) (simp add: bit_length_0)

lemma bit_length_Bit0: "bit_length (numeral (Num.Bit0 n)) = Suc (bit_length (numeral n))"
  by (subst bit_length.simps) simp

lemma bit_length_Bit1: "bit_length (numeral (Num.Bit1 n)) = Suc (bit_length (numeral n))"
  by (subst bit_length.simps) simp

lemma bit_length_1: "bit_length (numeral Num.One) = Suc 0"
  using bit_length_One by simp

lemmas bit_length_numeral =
  bit_length_0 bit_length_One bit_length_Bit0 bit_length_Bit1 bit_length_1

text \<open>The double product at work: \<^verbatim>\<open>int(90 * 0.7)\<close> is 62, not 63.\<close>

lemma truncated_length_90: "truncated_length 90 = 62"
  by (simp add: truncated_length_def bit_length_numeral Let_def)

lemma truncated_length_small:
  "truncated_length (Suc (Suc 0)) = Suc 0" "truncated_length (Suc 0) = 0"
  by (simp_all add: truncated_length_def bit_length_numeral Let_def)

text \<open>
  C2. With an oracle that answers every request with the token-limit error, a prompt of two
  characters is cut to one character, then to the empty prompt, and the empty prompt is
  sent again on every further self-call: there is no floor on the length. The chain of
  self-calls ends only where the interpreter refuses one more nested call, by
  \<^verbatim>\<open>RecursionError\<close>, after as many requests as the recursion limit allows.
\<close>

theorem token_limit_truncates_to_empty:
  "get_inference (token_limit_env\<lparr>recursion_limit := d\<rparr>) cfg [] w =
     (Inl (PyError ''RecursionError'' ''maximum recursion depth exceeded''),
      w\<lparr>calls := calls w @
           replicate (Suc d) (InvokeModel (model_id cfg) (encode (request_body cfg [])))\<rparr>) \<and>
   get_inference (token_limit_env\<lparr>recursion_limit := Suc (Suc d)\<rparr>) cfg ''ab'' w =
     (Inl (PyError ''RecursionError'' ''maximum recursion depth exceeded''),
      w\<lparr>calls := calls w @
           InvokeModel (model_id cfg) (encode (request_body cfg ''ab'')) #
           InvokeModel (model_id cfg) (encode (request_body cfg ''a'')) #
           replicate (Suc d) (InvokeModel (model_id cfg) (encode (request_body cfg [])))\<rparr>)"
proof -
  have e: "get_inference (token_limit_env\<lparr>recursion_limit := d\<rparr>) cfg [] w =
     (Inl (PyError ''RecursionError'' ''maximum recursion depth exceeded''),
      w\<lparr>calls := calls w @
           replicate (Suc d) (InvokeModel (model_id cfg) (encode (request_body cfg [])))\<rparr>)"
    by (simp add: get_inference_def token_limit_empty_prompt)
  have ab: "get_inference_at (token_limit_env\<lparr>recursion_limit := l\<rparr>) cfg (Suc (Suc d)) ''ab'' 0 w =
     (Inl (PyError ''RecursionError'' ''maximum recursion depth exceeded''),
      w\<lparr>calls := calls w @
           InvokeModel (model_id cfg) (encode (request_body cfg ''ab'')) #
           InvokeModel (model_id cfg) (encode (request_body cfg ''a'')) #
           replicate (Suc d) (InvokeModel (model_id cfg) (encode (request_body cfg [])))\<rparr>)" for l
    apply (subst get_inference_at.simps)
    apply (simp add: token_limit_attempt MAX_RETRIES_def token_limit_def truncated_length_small)
    apply (subst get_inference_at.simps)
    apply (simp add: token_limit_attempt MAX_RETRIES_def token_limit_def truncated_length_small
             token_limit_empty_prompt)
    done
  show ?thesis using e ab by (simp add: get_inference_def)
qed

section \<open>The validation gate of the result store\<close>

lemma validate_dict_missing:
  "field \<in> set fs \<Longrightarrow> dict_get d field = None \<or> dict_get d field = Some PNone \<Longrightarrow>
     validate_required_fields (PDict d) fs = Inr False"
  by (induction fs) (auto split: option.splits)

lemma do_update_item_calls:
  "do_update_item env t k e v w = (r, w') \<Longrightarrow>
     w' = w\<lparr>calls := calls w @ [UpdateItem t k e v]\<rparr>"
  by (auto simp: do_update_item_def Let_def split: option.splits)

lemma store_recommendation_invalid:
  "validate_required_fields recommendation [''recommendation'', ''confidence_score'', ''reasoning'']
     \<noteq> Inr True \<Longrightarrow>
   snd (store_recommendation env t sid recommendation w) = w \<and>
   isl (fst (store_recommendation env t sid recommendation w))"
  by (auto simp: store_recommendation_def split: sum.splits)

lemma store_recommendation_calls:
  "store_recommendation env t sid recommendation w = (r, w') \<Longrightarrow>
     w' = w \<and> isl r \<or>
     (\<exists>vals. w' = w\<lparr>calls := calls w @
        [UpdateItem t [(''stockId'', PStr sid)] recommendation_update_expression vals]\<rparr>)"
  by (auto simp: store_recommendation_def split: sum.splits if_splits dest: do_update_item_calls)

text \<open>
  C5. A verdict dictionary that lacks one of \<^verbatim>\<open>recommendation\<close>, \<^verbatim>\<open>confidence_score\<close>
  and \<^verbatim>\<open>reasoning\<close> (or holds \<^verbatim>\<open>None\<close> there) makes \<^verbatim>\<open>store_recommendation\<close> raise
  \<^verbatim>\<open>ValueError("Invalid recommendation data")\<close> and leaves the world as it was: no call
  to the store, or to anything else, is made. For every reply whatsoever, a call is made
  only after the validation has returned \<^verbatim>\<open>True\<close>, and then it is the one
  \<^verbatim>\<open>update_item\<close>.
\<close>

theorem store_recommendation_validation_gate:
  "(field \<in> set [''recommendation'', ''confidence_score'', ''reasoning''] \<and>
      (dict_get d field = None \<or> dict_get d field = Some PNone) \<longrightarrow>
      store_recommendation env t sid (PDict d) w =
        (Inl (PyError ''ValueError'' ''Invalid recommendation data''), w)) \<and>
   (new_calls w (snd (store_recommendation env t sid reply w)) \<noteq> [] \<longrightarrow>
      validate_required_fields reply [''recommendation'', ''confidence_score'', ''reasoning'']
        = Inr True \<and>
      (\<exists>vals. new_calls w (snd (store_recommendation env t sid reply w)) =
         [UpdateItem t [(''stockId'', PStr sid)] recommendation_update_expression vals]))"
proof (intro conjI impI)
  assume "field \<in> set [''recommendation'', ''confidence_score'', ''reasoning''] \<and>
      (dict_get d field = None \<or> dict_get d field = Some PNone)"
  then have "validate_required_fields (PDict d)
      [''recommendation'', ''confidence_score'', ''reasoning''] = Inr False"
    using validate_dict_missing by blast
  then show "store_recommendation env t sid (PDict d) w =
        (Inl (PyError ''ValueError'' ''Invalid recommendation data''), w)"
    by (simp add: store_recommendation_def)
next
  assume n: "new_calls w (snd (store_recommendation env t sid reply w)) \<noteq> []"
  show "validate_required_fields reply [''recommendation'', ''confidence_score'', ''reasoning'']
        = Inr True"
  proof (rule ccontr)
    assume "\<not> ?thesis"
    from store_recommendation_invalid[OF this, of env t sid w] n show False
      by (simp add: new_calls_def)
  qed
next
  assume n: "new_calls w (snd (store_recommendation env t sid reply w)) \<noteq> []"
  obtain r w' where s: "store_recommendation env t sid reply w = (r, w')" by force
  from store_recommendation_calls[OF s] n s
  show "\<exists>vals. new_calls w (snd (store_recommendation env t sid reply w)) =
         [UpdateItem t [(''stockId'', PStr sid)] recommendation_update_expression vals]"
    by (auto simp: new_calls_def)
qed

text \<open>A reply without \<^verbatim>\<open>confidence_score\<close>: \<^verbatim>\<open>ValueError\<close>, and an empty call log.\<close>

theorem store_recommendation_validation_gate_witness:
  "dict_get [(''recommendation'', PStr ''BUY''), (''reasoning'', PStr ''cheap'')]
     ''confidence_score'' = None \<and>
   store_recommendation base_env recommendations_table ''AAPL'' reply_without_score fresh =
     (Inl (PyError ''ValueError'' ''Invalid recommendation data''), fresh) \<and>
   calls fresh = []"
  using store_recommendation_validation_gate
          [of "''confidence_score''"
              "[(''recommendation'', PStr ''BUY''), (''reasoning'', PStr ''cheap'')]"
              base_env recommendations_table "''AAPL''" fresh]
  by (simp add: reply_without_score_def fresh_def)

section \<open>The owner key of the bias verdict\<close>

lemma validate_True_dict:
  "validate_required_fields v fs = Inr True \<Longrightarrow> field \<in> set fs \<Longrightarrow>
     \<exists>x. subscript v field = Inr x"
  by (induction fs) (auto split: sum.splits if_splits)

lemma store_bias_details_valid:
  assumes v: "validate_required_fields bias
                [''bias_score'', ''volatility_risk'', ''sector_concentration'', ''recommendation'']
              = Inr True"
  shows "store_bias_details env t bias w =
     (let w1 = w\<lparr>calls := calls w @ [TableScan risk_profile_table risk_scan_params]\<rparr>
      in case scan env (calls w) risk_profile_table risk_scan_params of
           Inl e \<Rightarrow> (Inl e, w1)
         | Inr response \<Rightarrow>
             (case owner_of response of
                Inl e \<Rightarrow> (Inl e, w1)
              | Inr user_id \<Rightarrow>
                  do_update_item env t [(''userId'', user_id)] bias_update_expression
                    [('':b'', projr (subscript bias ''bias_score'')),
                     ('':v'', projr (subscript bias ''volatility_risk'')),
                     ('':s'', projr (subscript bias ''sector_concentration'')),
                     ('':r'', projr (subscript bias ''recommendation'')),
                     ('':t'', PStr (now_isoformat env (calls w1)))] w1))"
proof -
  obtain b where b: "subscript bias ''bias_score'' = Inr b"
    using validate_True_dict[OF v, of "''bias_score''"] by auto
  obtain vr where vr: "subscript bias ''volatility_risk'' = Inr vr"
    using validate_True_dict[OF v, of "''volatility_risk''"] by auto
  obtain s where s: "subscript bias ''sector_concentration'' = Inr s"
    using validate_True_dict[OF v, of "''sector_concentration''"] by auto
  obtain r where r: "subscript bias ''recommendation'' = Inr r"
    using validate_True_dict[OF v, of "''recommendation''"] by auto
  show ?thesis
    using v b vr s r
    by (simp add: store_bias_details_def risk_scan_params_def owner_of_def and_then_def Let_def
          split: sum.splits list.splits)
qed

text \<open>
  C9, as the code has it. A verdict that passes validation makes \<^verbatim>\<open>store_bias_details\<close>
  scan the risk-profile table (\<^verbatim>\<open>Limit=1\<close>) on that very call: the cached risk profile
  of \<^verbatim>\<open>DynamoDBManager\<close> is neither read nor written. When the scan returns, the one
  update that follows is keyed by the \<^verbatim>\<open>userId\<close> of the first record returned, or by
  \<^verbatim>\<open>"user-default"\<close> when no record is returned; when the owner cannot be read, no
  update is made.
\<close>

theorem store_bias_details_owner_key:
  assumes "validate_required_fields bias
             [''bias_score'', ''volatility_risk'', ''sector_concentration'', ''recommendation'']
           = Inr True"
      and "scan env (calls w) risk_profile_table risk_scan_params = Inr response"
  shows "(case owner_of response of
            Inr user_id \<Rightarrow>
              \<exists>vals. new_calls w (snd (store_bias_details env t bias w)) =
                [TableScan risk_profile_table risk_scan_params,
                 UpdateItem t [(''userId'', user_id)] bias_update_expression vals]
          | Inl e \<Rightarrow>
              new_calls w (snd (store_bias_details env t bias w)) =
                [TableScan risk_profile_table risk_scan_params] \<and>
              fst (store_bias_details env t bias w) = Inl e) \<and>
         (Items response = None \<or> Items response = Some [] \<longrightarrow>
            owner_of response = Inr (PStr ''user-default'')) \<and>
         risk_profile_cache (snd (store_bias_details env t bias w)) = risk_profile_cache w \<and>
         fst (store_bias_details env t bias (w\<lparr>risk_profile_cache := c\<rparr>)) =
           fst (store_bias_details env t bias w)"
  using assms
  by (auto simp: store_bias_details_valid Let_def do_update_item_def owner_of_def
        items_or_empty_def new_calls_def
        split: sum.splits option.splits list.splits)

text \<open>
  With no risk profile in the store the update is keyed by \<^verbatim>\<open>"user-default"\<close>.
\<close>

theorem store_bias_details_owner_key_witness:
  "validate_required_fields sample_bias
     [''bias_score'', ''volatility_risk'', ''sector_concentration'', ''recommendation''] = Inr True \<and>
   scan base_env (calls fresh) risk_profile_table risk_scan_params =
     Inr \<lparr>Items = None, LastEvaluatedKey = None\<rparr> \<and>
   (\<exists>vals. new_calls fresh (snd (store_bias_details base_env portfolio_bias sample_bias fresh)) =
      [TableScan risk_profile_table risk_scan_params,
       UpdateItem portfolio_bias [(''userId'', PStr ''user-default'')] bias_update_expression vals])"
proof -
  have v: "validate_required_fields sample_bias
     [''bias_score'', ''volatility_risk'', ''sector_concentration'', ''recommendation''] = Inr True"
    by (simp add: sample_bias_def)
  have s: "scan base_env (calls fresh) risk_profile_table risk_scan_params =
     Inr \<lparr>Items = None, LastEvaluatedKey = None\<rparr>"
    by (simp add: base_env_def)
  have o: "owner_of \<lparr>Items = None, LastEvaluatedKey = None\<rparr> = Inr (PStr ''user-default'')"
    by (simp add: owner_of_def items_or_empty_def)
  from store_bias_details_owner_key[OF v s, of portfolio_bias] o v s
  show ?thesis by simp
qed

text \<open>
  C9, as the claim has it, fails: two calls in one run scan the risk-profile table twice,
  and the sentinel is \<^verbatim>\<open>"user-default"\<close>, not \<^verbatim>\<open>"default"\<close>.
\<close>

theorem store_bias_details_scans_every_call:
  "new_calls fresh
     (snd (store_bias_details base_env portfolio_bias sample_bias
        (snd (store_bias_details base_env portfolio_bias sample_bias fresh)))) =
     [TableScan risk_profile_table risk_scan_params,
      UpdateItem portfolio_bias [(''userId'', PStr ''user-default'')] bias_update_expression
        [('':b'', PInt 3), ('':v'', PStr ''low''), ('':s'', PStr ''tech''),
         ('':r'', PStr ''diversify''), ('':t'', PStr ''2026-01-01T00:00:00'')],
      TableScan risk_profile_table risk_scan_params,
      UpdateItem portfolio_bias [(''userId'', PStr ''user-default'')] bias_update_expression
        [('':b'', PInt 3), ('':v'', PStr ''low''), ('':s'', PStr ''tech''),
         ('':r'', PStr ''diversify''), ('':t'', PStr ''2026-01-01T00:00:00'')]] \<and>
   length (filter (\<lambda>c. c = TableScan risk_profile_table risk_scan_params)
     (new_calls fresh
        (snd (store_bias_details base_env portfolio_bias sample_bias
           (snd (store_bias_details base_env portfolio_bias sample_bias fresh)))))) = 2 \<and>
   PStr ''user-default'' \<noteq> PStr ''default''"
proof -
  have v: "validate_required_fields sample_bias
     [''bias_score'', ''volatility_risk'', ''sector_concentration'', ''recommendation''] = Inr True"
    by (simp add: sample_bias_def)
  have sub: "subscript sample_bias ''bias_score'' = Inr (PInt 3)"
    "subscript sample_bias ''volatility_risk'' = Inr (PStr ''low'')"
    "subscript sample_bias ''sector_concentration'' = Inr (PStr ''tech'')"
    "subscript sample_bias ''recommendation'' = Inr (PStr ''diversify'')"
    by (simp_all add: sample_bias_def)
  have run: "store_bias_details base_env portfolio_bias sample_bias w =
     (Inr True, w\<lparr>calls := calls w @
        [TableScan risk_profile_table risk_scan_params,
         UpdateItem portfolio_bias [(''userId'', PStr ''user-default'')] bias_update_expression
           [('':b'', PInt 3), ('':v'', PStr ''low''), ('':s'', PStr ''tech''),
            ('':r'', PStr ''diversify''), ('':t'', PStr ''2026-01-01T00:00:00'')]]\<rparr>)" for w
    by (simp add: store_bias_details_valid[OF v] sub Let_def base_env_def owner_of_def
          items_or_empty_def do_update_item_def)
  show ?thesis
    by (simp add: run new_calls_def fresh_def)
qed

section \<open>Entities with a missing source\<close>








section \<open>Pagination of the identifier scan\<close>

lemma get_stock_ids_loop_pages:
  assumes sp: "serves_pages env table_name rs"
      and ids: "map page_ids rs = map Inr idss"
  shows "i < length rs \<Longrightarrow>
     get_stock_ids_loop env table_name acc (cursor_before rs i) w =
       Some (Inr (remdups (acc @ concat (drop i idss))),
             w\<lparr>calls := calls w @
                  map (\<lambda>j. TableScan table_name (scan_params (cursor_before rs j)))
                    [i..<length rs]\<rparr>)"
proof (induction "length rs - i" arbitrary: i acc w)
  case 0
  then show ?case by simp
next
  case (Suc n)
  have len: "length idss = length rs"
    using ids by (metis length_map)
  have sc: "scan env (calls w) table_name (scan_params (cursor_before rs i)) = Inr (rs ! i)"
    using sp Suc.prems by (simp add: serves_pages_def)
  have "(map page_ids rs) ! i = (map Inr idss) ! i" using ids by simp
  then have pi: "stock_ids_of (items_or_empty (Items (rs ! i))) = Inr (idss ! i)"
    using Suc.prems len by (simp add: page_ids_def)
  have up: "[i..<length rs] = i # [Suc i..<length rs]"
    using Suc.prems by (simp add: upt_conv_Cons)
  show ?case
  proof (cases "Suc i < length rs")
    case True
    then have tr: "dict_truthy (LastEvaluatedKey (rs ! i))"
      using sp by (simp add: serves_pages_def)
    have cur: "LastEvaluatedKey (rs ! i) = cursor_before rs (Suc i)"
      by (simp add: cursor_before_def)
    have n: "n = length rs - Suc i" using Suc.hyps(2) by simp
    have dr: "drop i idss = idss ! i # drop (Suc i) idss"
      using Suc.prems len by (simp add: Cons_nth_drop_Suc)
    show ?thesis
      apply (subst get_stock_ids_loop.simps)
      apply (simp add: sc pi tr Let_def)
      apply (simp add: cur Suc.hyps(1)[OF n True] up dr)
      done
  next
    case False
    then have l: "rs ! i = last rs"
      using Suc.prems by (metis Suc_lessI diff_Suc_1 last_conv_nth less_nat_zero_code list.size(3))
    have ntr: "\<not> dict_truthy (LastEvaluatedKey (rs ! i))"
      using sp l by (simp add: serves_pages_def)
    have dr: "drop i idss = [idss ! i]"
      using Suc.prems False len by (metis Cons_nth_drop_Suc Suc_lessI drop_all le_refl)
    have up1: "[i..<length rs] = [i]"
      using Suc.prems False by (simp add: up)
    show ?thesis
      apply (subst get_stock_ids_loop.simps)
      apply (simp add: sc pi ntr Let_def dr up1)
      done
  qed
qed

text \<open>
  C8. For a store that serves the collection as any number of pages linked by cursors,
  \<^verbatim>\<open>get_stock_ids\<close> returns: its result holds exactly the identifiers that occur on some
  page, each once, and it has scanned once without a cursor and once with each cursor it
  was handed, in that order, and nothing else.
\<close>

theorem get_stock_ids_paginates:
  assumes "serves_pages env table_name rs"
      and "map page_ids rs = map Inr idss"
  shows "\<exists>ids w'. get_stock_ids env table_name w = Some (Inr ids, w') \<and>
           set ids = (\<Union>p \<in> set idss. set p) \<and> distinct ids \<and>
           new_calls w w' =
             map (\<lambda>j. TableScan table_name (scan_params (cursor_before rs j))) [0..<length rs]"
proof -
  have "0 < length rs" using assms(1) by (simp add: serves_pages_def)
  from get_stock_ids_loop_pages[OF assms this, of "[]" w]
  show ?thesis
    by (simp add: get_stock_ids_def cursor_before_def new_calls_def)
qed

text \<open>
  Two pages, with one identifier on both: three identifiers come back, after two scans.
\<close>

theorem get_stock_ids_paginates_witness:
  "serves_pages two_page_env stock_ids_table [first_page, second_page] \<and>
   map page_ids [first_page, second_page] = map Inr [[''AAPL'', ''MSFT''], [''MSFT'', ''NVDA'']] \<and>
   (\<exists>ids w'. get_stock_ids two_page_env stock_ids_table fresh = Some (Inr ids, w') \<and>
      set ids = {''AAPL'', ''MSFT'', ''NVDA''} \<and> distinct ids \<and>
      new_calls fresh w' =
        [TableScan stock_ids_table
           [(''ProjectionExpression'', PStr ''stockId''), (''ConsistentRead'', PBool True)],
         TableScan stock_ids_table
           [(''ProjectionExpression'', PStr ''stockId''), (''ConsistentRead'', PBool True),
            (''ExclusiveStartKey'', PDict [(''stockId'', PStr ''MSFT'')])]])"
proof -
  have sp: "serves_pages two_page_env stock_ids_table [first_page, second_page]"
    by (auto simp: serves_pages_def two_page_env_def base_env_def cursor_before_def
          scan_params_def dict_truthy_def option_dict_def first_page_def second_page_def
          less_Suc_eq)
  have ids: "map page_ids [first_page, second_page] =
               map Inr [[''AAPL'', ''MSFT''], [''MSFT'', ''NVDA'']]"
    by (simp add: page_ids_def first_page_def second_page_def items_or_empty_def
          stock_id_of_def and_then_def)
  have up: "[0..<length [first_page, second_page]] = [0, 1]"
    by (simp add: upt_rec)
  from get_stock_ids_paginates[OF sp ids, of fresh] sp ids
  show ?thesis
    by (simp add: up cursor_before_def scan_params_def dict_truthy_def option_dict_def
          first_page_def insert_commute)
qed

section \<open>The size of chunks\<close>


lemma values_size_simps [simp]:
  "values_size [] = 0"
  "values_size (c @ [(k, v)]) = values_size c + length (encode v)"
  "values_size [(k, v)] = length (encode v)"
  by (simp_all add: values_size_def)







section \<open>The per-entity loop\<close>

lemma store_recommendation_True:
  "store_recommendation env t sid recommendation w = (Inr b, w') \<Longrightarrow> b"
  by (auto simp: store_recommendation_def do_update_item_def Let_def
        split: sum.splits if_splits option.splits)

text \<open>Whatever happens inside it, the step returns an outcome record of its entity.\<close>

lemma process_stock_outcome: "is_outcome sid (fst (process_stock env cfg sid w))"
  by (auto simp: process_stock_def is_outcome_def keys_of_def error_record_def
        missing_data_record_def success_record_def
        split: prod.splits sum.splits option.splits dest: store_recommendation_True)

lemma outcome_success:
  "is_outcome sid r \<Longrightarrow> subscript r ''success'' = Inr (PBool (succeeded r))"
  by (auto simp: is_outcome_def succeeded_def)

lemma outcomes_Cons:
  "outcomes env cfg (sid # sids) w =
     (fst (process_stock env cfg sid w) #
        fst (outcomes env cfg sids (sleep api_delay (snd (process_stock env cfg sid w)))),
      snd (outcomes env cfg sids (sleep api_delay (snd (process_stock env cfg sid w)))))"
  by (simp split: prod.splits)

lemma outcomes_length: "length (fst (outcomes env cfg sids w)) = length sids"
  by (induction sids arbitrary: w) (simp_all add: outcomes_Cons del: outcomes.simps(2))

lemma outcomes_nth:
  "k < length sids \<Longrightarrow> is_outcome (sids ! k) (fst (outcomes env cfg sids w) ! k)"
proof (induction sids arbitrary: w k)
  case Nil
  then show ?case by simp
next
  case (Cons sid sids)
  obtain r w1 where p: "process_stock env cfg sid w = (r, w1)" by force
  then have r: "is_outcome sid r" using process_stock_outcome[of sid env cfg w] by simp
  show ?case
  proof (cases k)
    case 0
    then show ?thesis using p r by (simp add: outcomes_Cons del: outcomes.simps(2))
  next
    case (Suc j)
    then have "j < length sids" using Cons.prems by simp
    from Cons.IH[OF this, of "sleep api_delay w1"] Suc p
    show ?thesis by (simp add: outcomes_Cons del: outcomes.simps(2))
  qed
qed

text \<open>
  The loop of the handler never raises: it returns the records of the steps in order and
  has counted the successes and the others.
\<close>

lemma process_all_outcomes:
  "process_all env cfg sids results s f w =
     (Inr (results @ fst (outcomes env cfg sids w),
           s + length (filter succeeded (fst (outcomes env cfg sids w))),
           f + length (filter (\<lambda>r. \<not> succeeded r) (fst (outcomes env cfg sids w)))),
      snd (outcomes env cfg sids w))"
proof (induction sids arbitrary: results s f w)
  case Nil
  show ?case by simp
next
  case (Cons sid sids)
  obtain r w1 where p: "process_stock env cfg sid w = (r, w1)" by force
  then have "is_outcome sid r" using process_stock_outcome[of sid env cfg w] by simp
  then have s: "subscript r ''success'' = Inr (PBool (succeeded r))" by (rule outcome_success)
  show ?case
    by (cases "succeeded r") (simp_all add: p s Cons.IH outcomes_Cons del: outcomes.simps(2))
qed

section \<open>Dependencies that do not change with time\<close>

lemma stationaryD:
  "stationary env \<Longrightarrow>
     scan env h = scan env h' \<and> query env h = query env h' \<and>
     update_item env h = update_item env h' \<and> invoke_model env h = invoke_model env h' \<and>
     now_isoformat env h = now_isoformat env h'"
  unfolding stationary_def by blast

lemma cache_agrees_cong:
  "risk_profile_cache w = risk_profile_cache w' \<Longrightarrow> cache_agrees env w = cache_agrees env w'"
  by (simp add: cache_agrees_def)

lemma get_stock_data_cache:
  "risk_profile_cache (snd (get_stock_data env t sid w)) = risk_profile_cache w"
  by (auto simp: get_stock_data_def Let_def split: sum.splits list.splits)

lemma get_stock_data_stationary:
  assumes "stationary env"
  shows "fst (get_stock_data env t sid w) = fst (get_stock_data env t sid w')"
  using stationaryD[OF assms, of "calls w" "calls w'"]
  by (auto simp: get_stock_data_def Let_def split: sum.splits list.splits)

text \<open>
  Reading the risk profile through the cache gives what a direct read gives, and keeps the
  cache in agreement with the store.
\<close>

lemma risk_profile_stationary:
  assumes st: "stationary env" and a: "cache_agrees env w" and a': "cache_agrees env w'"
  shows "fst (risk_profile env w) = fst (risk_profile env w') \<and>
         cache_agrees env (snd (risk_profile env w))"
proof -
  have direct: "fst (risk_profile env v) =
      (case scan env [] risk_profile_table risk_scan_params of
         Inl e \<Rightarrow> Inl e
       | Inr response \<Rightarrow>
           (case items_or_empty (Items response) of [] \<Rightarrow> Inr None | item # _ \<Rightarrow> Inr (Some item))) \<and>
      cache_agrees env (snd (risk_profile env v))"
    if "cache_agrees env v" for v
    using that stationaryD[OF st, of "calls v" "[]"]
    by (auto simp: risk_profile_def fetch_risk_profile_def cache_agrees_def risk_scan_params_def
          Let_def split: option.splits sum.splits list.splits)
  show ?thesis using direct[OF a] direct[OF a'] by simp
qed

lemma invoke_attempt_stationary:
  assumes "stationary env"
  shows "fst (invoke_attempt env cfg prompt w) = fst (invoke_attempt env cfg prompt w')"
  using stationaryD[OF assms, of "calls w" "calls w'"]
  by (simp add: invoke_attempt_def Let_def)

lemma get_inference_at_stationary:
  "stationary env \<Longrightarrow>
     fst (get_inference_at env cfg depth prompt rc w) =
     fst (get_inference_at env cfg depth prompt rc w')"
proof (induction env cfg depth prompt rc w arbitrary: w' rule: get_inference_at.induct)
  case (1 env cfg depth prompt retry_count w)
  note st = "1.prems"
  show ?case
  proof (cases "retry_count < MAX_RETRIES")
    case False
    then show ?thesis
      by (subst get_inference_at.simps, subst (2) get_inference_at.simps) simp
  next
    case True
    then have nn: "\<not> \<not> retry_count < MAX_RETRIES" by simp
    obtain r1 w1 where att: "invoke_attempt env cfg prompt w = (r1, w1)" by force
    obtain r1' w1' where att': "invoke_attempt env cfg prompt w' = (r1', w1')" by force
    have same: "r1' = r1"
      using invoke_attempt_stationary[OF st, of cfg prompt w w'] att att' by simp
    show ?thesis
    proof (cases r1)
      case (Inr v)
      then show ?thesis using True att att' same
        by (subst get_inference_at.simps, subst (2) get_inference_at.simps) simp
    next
      case (Inl e)
      show ?thesis
      proof (cases e)
        case (PyError cls msg)
        then show ?thesis using True att att' same Inl
          by (subst get_inference_at.simps, subst (2) get_inference_at.simps) simp
      next
        case (ClientError code msg)
        show ?thesis
        proof (cases "code = ''ValidationException'' \<and> str_contains ''token limit exceeded'' msg")
          case tl: True
          show ?thesis
          proof (cases depth)
            case 0
            then show ?thesis using True att att' same Inl ClientError tl
              by (subst get_inference_at.simps, subst (2) get_inference_at.simps) simp
          next
            case (Suc d)
            from "1.IH"(1)[OF nn refl att[symmetric] Inl ClientError tl Suc st, of w1']
            show ?thesis using True att att' same Inl ClientError tl Suc
              by (subst get_inference_at.simps, subst (2) get_inference_at.simps) simp
          qed
        next
          case ntl: False
          show ?thesis
          proof (cases "code \<in> set retryable_bedrock_errors")
            case False
            then show ?thesis using True att att' same Inl ClientError ntl
              by (subst get_inference_at.simps, subst (2) get_inference_at.simps) auto
          next
            case rt: True
            have c: "code \<in> set retryable_bedrock_errors \<and> retry_count < MAX_RETRIES"
              using rt True by simp
            from "1.IH"(2)[OF nn refl att[symmetric] Inl ClientError ntl c st,
                           of "sleep (BASE_DELAY * 2 ^ (retry_count + 1)) w1'"]
            show ?thesis using True att att' same Inl ClientError ntl rt
              by (subst get_inference_at.simps, subst (2) get_inference_at.simps) auto
          qed
        qed
      qed
    qed
  qed
qed

lemma get_inference_stationary:
  "stationary env \<Longrightarrow>
     fst (get_inference env cfg prompt w) = fst (get_inference env cfg prompt w')"
  unfolding get_inference_def by (rule get_inference_at_stationary)

lemma get_inference_cache:
  "risk_profile_cache (snd (get_inference env cfg prompt w)) = risk_profile_cache w"
  using get_inference_calls[of env cfg prompt w] by (cases "get_inference env cfg prompt w") auto

lemma store_recommendation_cache:
  "risk_profile_cache (snd (store_recommendation env t sid r w)) = risk_profile_cache w"
  by (auto simp: store_recommendation_def do_update_item_def Let_def
        split: sum.splits if_splits option.splits)

lemma store_recommendation_stationary:
  assumes "stationary env"
  shows "fst (store_recommendation env t sid r w) = fst (store_recommendation env t sid r w')"
  using stationaryD[OF assms, of "calls w" "calls w'"]
  by (auto simp: store_recommendation_def do_update_item_def Let_def
        split: sum.splits if_splits option.splits)

lemma cache_agrees_fresh: "cache_agrees env fresh"
  by (simp add: cache_agrees_def fresh_def)

lemma get_stock_data_canon:
  "stationary env \<Longrightarrow> get_stock_data env t sid x = (r, x') \<Longrightarrow>
     r = fst (get_stock_data env t sid fresh) \<and> risk_profile_cache x' = risk_profile_cache x"
  using get_stock_data_stationary[of env t sid x fresh] get_stock_data_cache[of env t sid x]
  by simp

lemma risk_profile_canon:
  "stationary env \<Longrightarrow> cache_agrees env x \<Longrightarrow> risk_profile env x = (r, x') \<Longrightarrow>
     r = fst (risk_profile env fresh) \<and> cache_agrees env x'"
  using risk_profile_stationary[of env x fresh] cache_agrees_fresh[of env] by simp

lemma get_inference_canon:
  "stationary env \<Longrightarrow> get_inference env cfg p x = (r, x') \<Longrightarrow>
     r = fst (get_inference env cfg p fresh) \<and> risk_profile_cache x' = risk_profile_cache x"
  using get_inference_stationary[of env cfg p x fresh] get_inference_cache[of env cfg p x]
  by simp

lemma store_recommendation_canon:
  "stationary env \<Longrightarrow> store_recommendation env t sid v x = (r, x') \<Longrightarrow>
     r = fst (store_recommendation env t sid v fresh) \<and>
     risk_profile_cache x' = risk_profile_cache x"
  using store_recommendation_stationary[of env t sid v x fresh]
        store_recommendation_cache[of env t sid v x]
  by simp

lemma gather_stock_data_canon:
  assumes st: "stationary env" and a: "cache_agrees env x"
      and g: "gather_stock_data env sid x = (r, x')"
  shows "r = gathered env sid \<and> cache_agrees env x'"
proof -
  obtain r1 w1 where f: "get_stock_data env fundamentals_table sid x = (r1, w1)" by force
  obtain r2 w2 where t: "get_stock_data env technicals_table sid w1 = (r2, w2)" by force
  obtain r3 w3 where e: "get_stock_data env earnings_table sid w2 = (r3, w3)" by force
  obtain r4 w4 where p: "risk_profile env w3 = (r4, w4)" by force
  note c1 = get_stock_data_canon[OF st f]
  note c2 = get_stock_data_canon[OF st t]
  note c3 = get_stock_data_canon[OF st e]
  have a1: "cache_agrees env w1" using a c1 cache_agrees_cong[of w1 x env] by simp
  have a2: "cache_agrees env w2" using a1 c2 cache_agrees_cong[of w2 w1 env] by simp
  have a3: "cache_agrees env w3" using a2 c3 cache_agrees_cong[of w3 w2 env] by simp
  note c4 = risk_profile_canon[OF st a3 p]
  show ?thesis
    using g f t e p c1 c2 c3 c4 a1 a2 a3
    by (auto simp: gather_stock_data_def gathered_def split: sum.splits if_splits)
qed

lemma process_stock_canon:
  assumes st: "stationary env" and a: "cache_agrees env x"
  shows "fst (process_stock env cfg sid x) = outcome env cfg sid \<and>
         cache_agrees env (snd (process_stock env cfg sid x))"
proof -
  obtain r1 w1 where g: "gather_stock_data env sid x = (r1, w1)" by force
  note c1 = gather_stock_data_canon[OF st a g]
  show ?thesis
  proof (cases "gathered env sid")
    case (Inl e)
    then show ?thesis using g c1 by (simp add: process_stock_def outcome_def)
  next
    case (Inr d)
    show ?thesis
    proof (cases d)
      case None
      then show ?thesis using g c1 Inr by (simp add: process_stock_def outcome_def)
    next
      case (Some stock_data)
      show ?thesis
      proof (cases "build_analysis_prompt env cfg (convert_decimals env stock_data)")
        case bl: (Inl e)
        then show ?thesis using g c1 Inr Some by (simp add: process_stock_def outcome_def)
      next
        case br: (Inr prompt)
        obtain r2 w2 where i: "get_inference env cfg prompt w1 = (r2, w2)" by force
        note c2 = get_inference_canon[OF st i]
        have a2: "cache_agrees env w2" using c1 c2 cache_agrees_cong[of w2 w1 env] by simp
        have gi: "fst (get_inference env cfg prompt fresh) = r2" using c2 by simp
        have g1: "gather_stock_data env sid x = (Inr (Some stock_data), w1)"
          using g c1 Inr Some by simp
        show ?thesis
        proof (cases r2)
          case il: (Inl e)
          then show ?thesis using g1 Inr Some br i gi a2
            by (simp add: process_stock_def outcome_def)
        next
          case ir: (Inr recommendation)
          obtain r3 w3 where s:
            "store_recommendation env recommendations_table sid recommendation w2 = (r3, w3)"
            by force
          note c3 = store_recommendation_canon[OF st s]
          have a3: "cache_agrees env w3" using a2 c3 cache_agrees_cong[of w3 w2 env] by simp
          have sr: "fst (store_recommendation env recommendations_table sid recommendation fresh) = r3"
            using c3 by simp
          show ?thesis using g1 Inr Some br i gi ir s sr a3
            by (cases r3) (simp_all add: process_stock_def outcome_def)
        qed
      qed
    qed
  qed
qed

lemma outcomes_stationary:
  "stationary env \<Longrightarrow> cache_agrees env w \<Longrightarrow>
     fst (outcomes env cfg sids w) = map (outcome env cfg) sids"
proof (induction sids arbitrary: w)
  case Nil
  show ?case by simp
next
  case (Cons sid sids)
  from process_stock_canon[OF Cons.prems, of cfg sid]
  have p: "fst (process_stock env cfg sid w) = outcome env cfg sid"
    and a: "cache_agrees env (snd (process_stock env cfg sid w))" by simp_all
  have "cache_agrees env (sleep api_delay (snd (process_stock env cfg sid w)))"
    using a cache_agrees_cong[of "sleep api_delay (snd (process_stock env cfg sid w))"
                                  "snd (process_stock env cfg sid w)" env]
    by (simp add: sleep_def)
  from Cons.IH[OF Cons.prems(1) this] p
  show ?case by (simp add: outcomes_Cons del: outcomes.simps(2))
qed

lemma outcome_alone:
  "stationary env \<Longrightarrow> outcome env cfg sid = fst (process_stock env cfg sid fresh)"
  using process_stock_canon[of env fresh cfg sid] cache_agrees_fresh by simp

section \<open>The run as a whole\<close>

lemma get_stock_ids_loop_cache:
  assumes "get_stock_ids_loop env t acc k w = Some y"
  shows "risk_profile_cache (snd y) = risk_profile_cache w"
  by (rule get_stock_ids_loop.raw_induct
            [where P = "\<lambda>env t acc k w y. risk_profile_cache (snd y) = risk_profile_cache w",
             OF _ assms])
     (auto simp: Let_def split: sum.splits if_splits)

lemma batch_loop_cache:
  "risk_profile_cache (snd (batch_loop env t sids results w)) = risk_profile_cache w"
proof (induction env t sids results w rule: batch_loop.induct)
  case (1 env table_name stock_ids results w)
  show ?case
    by (subst batch_loop.simps) (auto simp: Let_def "1.IH" split: sum.splits)
qed

lemma store_bias_details_cache:
  "risk_profile_cache (snd (store_bias_details env t bias w)) = risk_profile_cache w"
  by (auto simp: store_bias_details_def do_update_item_def Let_def
        split: sum.splits if_splits option.splits prod.splits)

lemma process_portfolio_cache:
  "risk_profile_cache (snd (process_portfolio env cfg sids w)) = risk_profile_cache w"
proof -
  have b: "batch_get_stock_data env t sids x = (r, x') \<Longrightarrow>
             risk_profile_cache x' = risk_profile_cache x" for t x r x'
    using batch_loop_cache[of env t sids "[]" x] by (simp add: batch_get_stock_data_def)
  have i: "get_inference env cfg p x = (r, x') \<Longrightarrow>
             risk_profile_cache x' = risk_profile_cache x" for p x r x'
    using get_inference_cache[of env cfg p x] by simp
  have s: "store_bias_details env t v x = (r, x') \<Longrightarrow>
             risk_profile_cache x' = risk_profile_cache x" for t v x r x'
    using store_bias_details_cache[of env t v x] by simp
  show ?thesis
    by (auto simp: process_portfolio_def split: prod.splits sum.splits dest!: b i s)
qed

text \<open>
  Once the identifiers are listed the handler answers 200: nothing that happens in the
  aggregate step or in a per-entity step reaches its \<^verbatim>\<open>except\<close> clause.
\<close>

lemma lambda_handler_completes:
  assumes "get_stock_ids env stock_ids_table (w\<lparr>risk_profile_cache := None\<rparr>) = Some (Inr sids, w1)"
  shows "lambda_handler env cfg w =
     Some (\<lparr>statusCode = 200,
            body = json_dumps_default_str
              (complete_body sids
                 (length (filter succeeded
                    (fst (outcomes env cfg sids (snd (process_portfolio env cfg sids w1))))))
                 (length (filter (\<lambda>r. \<not> succeeded r)
                    (fst (outcomes env cfg sids (snd (process_portfolio env cfg sids w1))))))
                 (fst (process_portfolio env cfg sids w1))
                 (fst (outcomes env cfg sids (snd (process_portfolio env cfg sids w1)))))\<rparr>,
           snd (outcomes env cfg sids (snd (process_portfolio env cfg sids w1))))"
  by (simp add: lambda_handler_def assms process_all_outcomes split: prod.splits)

lemma loop_starts_with_empty_cache:
  assumes "get_stock_ids env stock_ids_table (w\<lparr>risk_profile_cache := None\<rparr>) = Some (Inr sids, w1)"
  shows "cache_agrees env (snd (process_portfolio env cfg sids w1))"
proof -
  have "risk_profile_cache w1 = None"
    using get_stock_ids_loop_cache[OF assms[unfolded get_stock_ids_def]] by simp
  then show ?thesis
    by (simp add: cache_agrees_def process_portfolio_cache)
qed

lemma count_split: "length (filter P xs) + length (filter (\<lambda>x. \<not> P x) xs) = length xs"
  by (induction xs) auto

section \<open>The writes of a run\<close>













section \<open>Isolation of per-entity failures\<close>


lemmas evaluation =
  process_stock_def gather_stock_data_def get_stock_data_def base_env_def base_config_def
  fresh_def Let_def items_or_empty_def sanitize_data_def and_then_def dict_truthy_def
  risk_profile_def fetch_risk_profile_def option_dict_def build_analysis_prompt_def
  get_inference_def get_inference_at.simps MAX_RETRIES_def invoke_attempt_def
  request_body_def encode_str_def escape_char_def parse_reply_def loads_value_def
  store_recommendation_def do_update_item_def verdict_def success_record_def
  error_record_def missing_data_record_def retryable_bedrock_errors_def MAX_TOKENS_def
  int_repr_def nat_digits.simps risk_profile_table_def stock_ids_table_def
  risk_scan_params_def fundamentals_table_def technicals_table_def earnings_table_def













section \<open>The summary returned by the handler\<close>

lemma missing_data_not_succeeded: "\<not> succeeded (missing_data_record sid)"
  by (simp add: succeeded_def missing_data_record_def)

text \<open>
  C7, as the code has it. When the identifiers could be listed, the handler returns status
  200 and, as its body, the serialization of a dictionary with the keys \<^verbatim>\<open>message\<close>,
  \<^verbatim>\<open>total_processed\<close>, \<^verbatim>\<open>successful\<close>, \<^verbatim>\<open>failed\<close>, \<^verbatim>\<open>portfolio_analysis\<close> and
  \<^verbatim>\<open>results\<close>, and no other. \<^verbatim>\<open>total_processed\<close> is the number of identifiers,
  \<^verbatim>\<open>successful\<close> the number of records with \<^verbatim>\<open>success\<close> true and \<^verbatim>\<open>failed\<close> the
  number of all other records, so that the two add up to \<^verbatim>\<open>total_processed\<close>; the
  record of an entity with a missing source is one of those counted under \<^verbatim>\<open>failed\<close>.
\<close>

theorem run_summary_counts:
  assumes "get_stock_ids env stock_ids_table (w\<lparr>risk_profile_cache := None\<rparr>) = Some (Inr ids, w0)"
  shows "\<exists>s f pa rs w'.
           lambda_handler env cfg w =
             Some (\<lparr>statusCode = 200,
                    body = json_dumps_default_str (complete_body ids s f pa rs)\<rparr>, w') \<and>
           keys_of (complete_body ids s f pa rs) =
             [''message'', ''total_processed'', ''successful'', ''failed'',
              ''portfolio_analysis'', ''results''] \<and>
           subscript (complete_body ids s f pa rs) ''total_processed'' =
             Inr (PInt (int (length ids))) \<and>
           subscript (complete_body ids s f pa rs) ''successful'' = Inr (PInt (int s)) \<and>
           subscript (complete_body ids s f pa rs) ''failed'' = Inr (PInt (int f)) \<and>
           subscript (complete_body ids s f pa rs) ''results'' = Inr (PList rs) \<and>
           length rs = length ids \<and>
           s = length (filter succeeded rs) \<and>
           f = length (filter (\<lambda>r. \<not> succeeded r) rs) \<and>
           s + f = length ids \<and>
           (\<forall>k < length ids. is_outcome (ids ! k) (rs ! k)) \<and>
           (\<forall>k < length ids. rs ! k = missing_data_record (ids ! k) \<longrightarrow> \<not> succeeded (rs ! k))"
proof -
  let ?rs = "fst (outcomes env cfg ids (snd (process_portfolio env cfg ids w0)))"
  have len: "length ?rs = length ids" by (rule outcomes_length)
  have sum: "length (filter succeeded ?rs) + length (filter (\<lambda>r. \<not> succeeded r) ?rs) = length ids"
    using count_split[of succeeded ?rs] len by simp
  have out: "\<forall>k < length ids. is_outcome (ids ! k) (?rs ! k)"
    using outcomes_nth by blast
  have miss: "\<forall>k < length ids. ?rs ! k = missing_data_record (ids ! k) \<longrightarrow> \<not> succeeded (?rs ! k)"
    using missing_data_not_succeeded by simp
  have keys: "keys_of (complete_body ids s f pa rs) =
             [''message'', ''total_processed'', ''successful'', ''failed'',
              ''portfolio_analysis'', ''results'']" for s f pa rs
    by (simp add: keys_of_def complete_body_def)
  have subs:
    "subscript (complete_body ids s f pa rs) ''total_processed'' = Inr (PInt (int (length ids)))"
    "subscript (complete_body ids s f pa rs) ''successful'' = Inr (PInt (int s))"
    "subscript (complete_body ids s f pa rs) ''failed'' = Inr (PInt (int f))"
    "subscript (complete_body ids s f pa rs) ''results'' = Inr (PList rs)" for s f pa rs
    by (simp_all add: complete_body_def)
  show ?thesis
    apply (rule exI[of _ "length (filter succeeded ?rs)"])
    apply (rule exI[of _ "length (filter (\<lambda>r. \<not> succeeded r) ?rs)"])
    apply (rule exI[of _ "fst (process_portfolio env cfg ids w0)"])
    apply (rule exI[of _ ?rs])
    apply (rule exI[of _ "snd (outcomes env cfg ids (snd (process_portfolio env cfg ids w0)))"])
    using lambda_handler_completes[OF assms, of cfg] len sum out miss
    apply (simp only: keys subs)
    done
qed

lemma one_skipped_env_stationary: "stationary one_skipped_env"
  by (simp add: stationary_def one_skipped_env_def no_earnings_env_def base_env_def)

lemma one_skipped_env_ids:
  "get_stock_ids one_skipped_env stock_ids_table (fresh\<lparr>risk_profile_cache := None\<rparr>) =
     Some (Inr [''AAPL''], fresh\<lparr>calls := [TableScan stock_ids_table (scan_params None)]\<rparr>)"
  unfolding get_stock_ids_def
  by (subst get_stock_ids_loop.simps)
     (simp add: one_skipped_env_def no_earnings_env_def base_env_def fresh_def
        items_or_empty_def stock_id_of_def and_then_def dict_truthy_def)

lemma one_skipped_env_outcome:
  "fst (process_stock one_skipped_env base_config ''AAPL'' fresh) = missing_data_record ''AAPL''"
  by (simp add: one_skipped_env_def no_earnings_env_def evaluation)

lemma one_skipped_env_run:
  "\<exists>pa w'. lambda_handler one_skipped_env base_config fresh =
      Some (\<lparr>statusCode = 200,
             body = json_dumps_default_str
               (complete_body [''AAPL''] 0 1 pa [missing_data_record ''AAPL''])\<rparr>, w')"
proof -
  let ?w2 = "snd (process_portfolio one_skipped_env base_config [''AAPL'']
                    (fresh\<lparr>calls := [TableScan stock_ids_table (scan_params None)]\<rparr>))"
  have a: "cache_agrees one_skipped_env ?w2"
    by (rule loop_starts_with_empty_cache[OF one_skipped_env_ids])
  have rs: "fst (outcomes one_skipped_env base_config [''AAPL''] ?w2) = [missing_data_record ''AAPL'']"
    using outcomes_stationary[OF one_skipped_env_stationary a, of base_config "[''AAPL'']"]
    by (simp add: outcome_alone[OF one_skipped_env_stationary] one_skipped_env_outcome)
  note run = lambda_handler_completes[OF one_skipped_env_ids, of base_config, unfolded rs]
  have c: "length (filter succeeded [missing_data_record ''AAPL'']) = 0"
    "length (filter (\<lambda>r. \<not> succeeded r) [missing_data_record ''AAPL'']) = 1"
    by (simp_all add: missing_data_not_succeeded)
  show ?thesis
    using run[unfolded c] by blast
qed

text \<open>
  One entity, whose earnings are missing: the run is complete, and its counts are no
  success and one failure.
\<close>

theorem run_summary_counts_witness:
  "get_stock_ids one_skipped_env stock_ids_table (fresh\<lparr>risk_profile_cache := None\<rparr>) =
     Some (Inr [''AAPL''], fresh\<lparr>calls := [TableScan stock_ids_table (scan_params None)]\<rparr>) \<and>
   (\<exists>s f pa rs w'.
      lambda_handler one_skipped_env base_config fresh =
        Some (\<lparr>statusCode = 200,
               body = json_dumps_default_str (complete_body [''AAPL''] s f pa rs)\<rparr>, w') \<and>
      length rs = 1 \<and> s + f = 1)"
proof -
  from run_summary_counts[OF one_skipped_env_ids, of base_config]
  obtain s f pa rs w' where
    "lambda_handler one_skipped_env base_config fresh =
        Some (\<lparr>statusCode = 200,
               body = json_dumps_default_str (complete_body [''AAPL''] s f pa rs)\<rparr>, w')"
    "length rs = length [''AAPL'']" "s + f = length [''AAPL'']"
    by blast
  then show ?thesis using one_skipped_env_ids by auto
qed

text \<open>
  C7, as the claim has it, fails: the body of that run has no \<^verbatim>\<open>skipped\<close> entry, and the
  entity skipped for missing data is the one counted under \<^verbatim>\<open>failed\<close>.
\<close>

theorem skipped_entity_counted_as_failed:
  "\<exists>pa w'.
     lambda_handler one_skipped_env base_config fresh =
       Some (\<lparr>statusCode = 200,
              body = json_dumps_default_str
                (complete_body [''AAPL''] 0 1 pa [missing_data_record ''AAPL''])\<rparr>, w') \<and>
     subscript (complete_body [''AAPL''] 0 1 pa [missing_data_record ''AAPL'']) ''skipped'' =
       Inl (PyError ''KeyError'' ''skipped'') \<and>
     subscript (complete_body [''AAPL''] 0 1 pa [missing_data_record ''AAPL'']) ''failed'' =
       Inr (PInt 1)"
proof -
  from one_skipped_env_run obtain pa w' where
    "lambda_handler one_skipped_env base_config fresh =
       Some (\<lparr>statusCode = 200,
              body = json_dumps_default_str
                (complete_body [''AAPL''] 0 1 pa [missing_data_record ''AAPL''])\<rparr>, w')"
    by blast
  then show ?thesis
    by (intro exI[of _ pa] exI[of _ w']) (simp add: complete_body_def)
qed

end
